theory Spec2Isabelle
  imports Main "HOL-Library.Multiset"
begin

text \<open>
  A model of the request bot of \<open>main.py\<close>: the handlers of the intake conversation and of
  the recall, export and manager commands as functions from the session data and the
  update to a trace of effects, the session data afterwards and what the handler returns;
  the table of \<open>build_app\<close> as a dispatcher; and the properties of the platform selector,
  the submission finalizer, the search, the export by date range, the manager view and the
  admin gate.
\<close>

section \<open>Text\<close>

text \<open>
  Python text is modelled as \<^typ>\<open>string\<close>, one \<^typ>\<open>char\<close> per code point, for text in
  the ASCII range. \<open>str.strip()\<close> removes the characters for which \<open>str.isspace\<close> holds
  from both ends, \<open>str.lstrip("@")\<close> removes every leading \<open>@\<close>, \<open>str.lower()\<close> maps
  \<open>A\<close>..\<open>Z\<close> to \<open>a\<close>..\<open>z\<close>, and \<open>a in b\<close> on two texts is the substring test.
\<close>

definition isspace :: "char \<Rightarrow> bool" where
  "isspace c = (c \<in> set [CHR 0x09, CHR 0x0A, CHR 0x0B, CHR 0x0C, CHR 0x0D,
                          CHR 0x1C, CHR 0x1D, CHR 0x1E, CHR 0x1F, CHR 0x20])"

definition lstrip :: "string \<Rightarrow> string" where
  "lstrip s = dropWhile isspace s"

definition rstrip :: "string \<Rightarrow> string" where
  "rstrip s = rev (dropWhile isspace (rev s))"

definition strip :: "string \<Rightarrow> string" where
  "strip s = rstrip (lstrip s)"

definition lstrip_at :: "string \<Rightarrow> string" where
  "lstrip_at s = dropWhile (\<lambda>c. c = CHR ''@'') s"

definition lower_char :: "char \<Rightarrow> char" where
  "lower_char c =
     (case map_of (zip ''ABCDEFGHIJKLMNOPQRSTUVWXYZ'' ''abcdefghijklmnopqrstuvwxyz'') c of
        Some d \<Rightarrow> d
      | None \<Rightarrow> c)"

definition lower :: "string \<Rightarrow> string" where
  "lower s = map lower_char s"

fun is_prefix :: "string \<Rightarrow> string \<Rightarrow> bool" where
  "is_prefix [] ys = True"
| "is_prefix (x # xs) [] = False"
| "is_prefix (x # xs) (y # ys) = (x = y \<and> is_prefix xs ys)"

fun contains :: "string \<Rightarrow> string \<Rightarrow> bool" where
  "contains [] sub = (sub = [])"
| "contains (c # cs) sub = (is_prefix sub (c # cs) \<or> contains cs sub)"

fun join :: "string \<Rightarrow> string list \<Rightarrow> string" where
  "join sep [] = []"
| "join sep [x] = x"
| "join sep (x # y # ys) = x @ sep @ join sep (y # ys)"

text \<open>\<open>s.split(":", 1)[1]\<close>: the text after the first colon; IndexError without one.\<close>

fun after_colon :: "string \<Rightarrow> string option" where
  "after_colon [] = None"
| "after_colon (c # cs) = (if c = CHR '':'' then Some cs else after_colon cs)"

section \<open>Dates, times and their text\<close>

text \<open>
  A calendar date as \<open>datetime.date\<close> holds it, and a wall-clock time as
  \<open>datetime.datetime\<close> holds it. Dates compare field by field. Both time values the program
  subtracts carry the same \<open>tzinfo\<close> object, so the difference is taken on the wall-clock
  fields alone: \<open>(a - b).days\<close> is the floor of the difference in microseconds over the
  microseconds of a day, with days counted by the proleptic Gregorian ordinal.
\<close>

record date =
  year :: nat
  month :: nat
  day :: nat

record datetime =
  dt_year :: nat
  dt_month :: nat
  dt_day :: nat
  dt_hour :: nat
  dt_minute :: nat
  dt_second :: nat
  dt_microsecond :: nat

definition date_less :: "date \<Rightarrow> date \<Rightarrow> bool" where
  "date_less a b =
     (year a < year b \<or> (year a = year b \<and>
        (month a < month b \<or> (month a = month b \<and> day a < day b))))"

definition date_le :: "date \<Rightarrow> date \<Rightarrow> bool" where
  "date_le a b = (date_less a b \<or> (year a = year b \<and> month a = month b \<and> day a = day b))"

definition date_of :: "datetime \<Rightarrow> date" where
  "date_of t = \<lparr>year = dt_year t, month = dt_month t, day = dt_day t\<rparr>"

definition is_leap :: "nat \<Rightarrow> bool" where
  "is_leap y = (y mod 4 = 0 \<and> (y mod 100 \<noteq> 0 \<or> y mod 400 = 0))"

definition days_in_month :: "nat \<Rightarrow> nat \<Rightarrow> nat" where
  "days_in_month y m =
     (if m = 2 \<and> is_leap y then 29
      else [0, 31, 28, 31, 30, 31, 30, 31, 31, 30, 31, 30, 31] ! m)"

definition days_before_year :: "nat \<Rightarrow> int" where
  "days_before_year y =
     (let p = int y - 1 in p * 365 + p div 4 - p div 100 + p div 400)"

definition days_before_month :: "nat \<Rightarrow> nat \<Rightarrow> int" where
  "days_before_month y m =
     [0, 0, 31, 59, 90, 120, 151, 181, 212, 243, 273, 304, 334] ! m
     + (if 2 < m \<and> is_leap y then 1 else 0)"

definition ymd2ord :: "nat \<Rightarrow> nat \<Rightarrow> nat \<Rightarrow> int" where
  "ymd2ord y m d = days_before_year y + days_before_month y m + int d"

definition microseconds :: "datetime \<Rightarrow> int" where
  "microseconds t =
     (((ymd2ord (dt_year t) (dt_month t) (dt_day t) * 24 + int (dt_hour t)) * 60
        + int (dt_minute t)) * 60 + int (dt_second t)) * 1000000 + int (dt_microsecond t)"

definition delta_days :: "datetime \<Rightarrow> datetime \<Rightarrow> int" where
  "delta_days a b = (microseconds a - microseconds b) div 86400000000"

text \<open>Decimal text of a number, and the zero-padded fields of \<open>strftime\<close>.\<close>

definition digit_char :: "nat \<Rightarrow> char" where
  "digit_char n = ''0123456789'' ! (n mod 10)"

fun str_nat :: "nat \<Rightarrow> string" where
  "str_nat n = (if n < 10 then [digit_char n] else str_nat (n div 10) @ [digit_char n])"

declare str_nat.simps [simp del]

definition str_int :: "int \<Rightarrow> string" where
  "str_int i = (if i < 0 then CHR ''-'' # str_nat (nat (- i)) else str_nat (nat i))"

definition zero_pad :: "nat \<Rightarrow> nat \<Rightarrow> string" where
  "zero_pad w n = replicate (w - length (str_nat n)) CHR ''0'' @ str_nat n"

text \<open>
  \<open>strftime("%Y-%m-%d %H:%M:%S")\<close> and \<open>strftime("%Y%m%d-%H%M%S")\<close>, for clock
  readings of the years from 1000 on (the year is written with its four digits).
\<close>

definition strftime_stamp :: "datetime \<Rightarrow> string" where
  "strftime_stamp t =
     zero_pad 4 (dt_year t) @ ''-'' @ zero_pad 2 (dt_month t) @ ''-'' @ zero_pad 2 (dt_day t)
     @ '' '' @ zero_pad 2 (dt_hour t) @ '':'' @ zero_pad 2 (dt_minute t) @ '':''
     @ zero_pad 2 (dt_second t)"

definition strftime_compact :: "datetime \<Rightarrow> string" where
  "strftime_compact t =
     zero_pad 4 (dt_year t) @ zero_pad 2 (dt_month t) @ zero_pad 2 (dt_day t)
     @ ''-'' @ zero_pad 2 (dt_hour t) @ zero_pad 2 (dt_minute t) @ zero_pad 2 (dt_second t)"

text \<open>
  \<open>datetime.strptime\<close> turns the format into a regular expression, matches it at the start
  of the text, refuses text that is left over, and then builds the value, which refuses
  fields out of range. Each directive is an alternation of fixed runs of character
  classes, tried in order: \<open>%Y\<close> is \<open>\d\d\d\d\<close>, \<open>%m\<close> is \<open>1[0-2]|0[1-9]|[1-9]\<close>,
  \<open>%d\<close> is \<open>3[0-1]|[1-2]\d|0[1-9]|[1-9]| [1-9]\<close>, \<open>%H\<close> is \<open>2[0-3]|[0-1]\d|\d\<close>,
  \<open>%M\<close> is \<open>[0-5]\d|\d\<close>, \<open>%S\<close> is \<open>6[0-1]|[0-5]\d|\d\<close>, and a blank in the format
  is \<open>\s+\<close>. An alternative that matches is never given up here, because what follows
  every directive of the two formats cannot start with a digit.
\<close>

definition digit_val :: "char \<Rightarrow> nat" where
  "digit_val c = length (takeWhile (\<lambda>d. d \<noteq> c) ''0123456789'')"

definition int_of_text :: "string \<Rightarrow> nat" where
  "int_of_text s = foldl (\<lambda>n c. 10 * n + digit_val c) 0 (filter (\<lambda>c. c \<noteq> CHR '' '') s)"

fun match_seq :: "string list \<Rightarrow> string \<Rightarrow> (string \<times> string) option" where
  "match_seq [] s = Some ([], s)"
| "match_seq (cls # rest) [] = None"
| "match_seq (cls # rest) (c # cs) =
     (if c \<in> set cls then
        (case match_seq rest cs of Some (m, r) \<Rightarrow> Some (c # m, r) | None \<Rightarrow> None)
      else None)"

fun match_alt :: "string list list \<Rightarrow> string \<Rightarrow> (nat \<times> string) option" where
  "match_alt [] s = None"
| "match_alt (a # alts) s =
     (case match_seq a s of Some (m, r) \<Rightarrow> Some (int_of_text m, r) | None \<Rightarrow> match_alt alts s)"

definition re_Y :: "string list list" where
  "re_Y = [[''0123456789'', ''0123456789'', ''0123456789'', ''0123456789'']]"

definition re_m :: "string list list" where
  "re_m = [[''1'', ''012''], [''0'', ''123456789''], [''123456789'']]"

definition re_d :: "string list list" where
  "re_d = [[''3'', ''01''], [''12'', ''0123456789''], [''0'', ''123456789''], [''123456789''],
           ['' '', ''123456789'']]"

definition re_H :: "string list list" where
  "re_H = [[''2'', ''0123''], [''01'', ''0123456789''], [''0123456789'']]"

definition re_M :: "string list list" where
  "re_M = [[''012345'', ''0123456789''], [''0123456789'']]"

definition re_S :: "string list list" where
  "re_S = [[''6'', ''01''], [''012345'', ''0123456789''], [''0123456789'']]"

definition expect :: "char \<Rightarrow> string \<Rightarrow> string option" where
  "expect c s = (case s of x # xs \<Rightarrow> if x = c then Some xs else None | [] \<Rightarrow> None)"

definition spaces1 :: "string \<Rightarrow> string option" where
  "spaces1 s = (case s of x # xs \<Rightarrow> if isspace x then Some (dropWhile isspace xs) else None
                | [] \<Rightarrow> None)"

definition valid_date :: "nat \<Rightarrow> nat \<Rightarrow> nat \<Rightarrow> bool" where
  "valid_date y m d = (1 \<le> y \<and> 1 \<le> m \<and> m \<le> 12 \<and> 1 \<le> d \<and> d \<le> days_in_month y m)"

text \<open>\<open>datetime.strptime(s, "%Y-%m-%d").date()\<close>; \<open>None\<close> is the ValueError.\<close>

definition strptime_date :: "string \<Rightarrow> date option" where
  "strptime_date s =
     Option.bind (match_alt re_Y s) (\<lambda>(y, s1).
     Option.bind (expect CHR ''-'' s1) (\<lambda>s2.
     Option.bind (match_alt re_m s2) (\<lambda>(m, s3).
     Option.bind (expect CHR ''-'' s3) (\<lambda>s4.
     Option.bind (match_alt re_d s4) (\<lambda>(d, s5).
       if s5 = [] \<and> valid_date y m d then Some \<lparr>year = y, month = m, day = d\<rparr>
       else None)))))"

text \<open>\<open>datetime.strptime(s, "%Y-%m-%d %H:%M:%S")\<close>; \<open>None\<close> is the ValueError.\<close>

definition strptime_datetime :: "string \<Rightarrow> datetime option" where
  "strptime_datetime s =
     Option.bind (match_alt re_Y s) (\<lambda>(y, s1).
     Option.bind (expect CHR ''-'' s1) (\<lambda>s2.
     Option.bind (match_alt re_m s2) (\<lambda>(m, s3).
     Option.bind (expect CHR ''-'' s3) (\<lambda>s4.
     Option.bind (match_alt re_d s4) (\<lambda>(d, s5).
     Option.bind (spaces1 s5) (\<lambda>s6.
     Option.bind (match_alt re_H s6) (\<lambda>(h, s7).
     Option.bind (expect CHR '':'' s7) (\<lambda>s8.
     Option.bind (match_alt re_M s8) (\<lambda>(mi, s9).
     Option.bind (expect CHR '':'' s9) (\<lambda>s10.
     Option.bind (match_alt re_S s10) (\<lambda>(sec, s11).
       if s11 = [] \<and> valid_date y m d \<and> sec \<le> 59 then
         Some \<lparr>dt_year = y, dt_month = m, dt_day = d, dt_hour = h, dt_minute = mi,
               dt_second = sec, dt_microsecond = 0\<rparr>
       else None)))))))))))"

definition parse_date :: "string \<Rightarrow> date option" where
  "parse_date v = strptime_date (strip v)"

section \<open>Configuration and data\<close>

definition PLATFORMS :: "string list" where
  "PLATFORMS = [''Facebook'', ''Instagram'', ''YouTube'', ''Brand's Website'',
                ''Lazada'', ''Shopee'', ''TikTok'', ''Others'']"

datatype state =
    CHOOSING_ACTION | BRAND_NAME | CREATOR_NAME | ROOM_NO | DATE_TO_BE_AIRED
  | CAMERA_REQ | STAGE_DESIGN | OTHER_TECH | PLATFORM_MODE | PLATFORM_SELECT
  | PLATFORM_OTHER | CONFIRM_SUBMIT | RECALL_MENU | SEARCH_BRAND | EXPORT_CHOICE
  | EXPORT_DATE_START | EXPORT_DATE_END | EXPORT_REQUESTER

text \<open>
  What a handler hands back to the conversation: a state of the table, the constant
  \<open>ConversationHandler.END\<close>, \<open>None\<close> (a handler that falls off its end or returns
  bare), or an exception that leaves the handler.
\<close>

datatype outcome = Goto state | END | ReturnNone | Raised string

text \<open>
  \<open>context.user_data\<close> is a dict that only ever holds the keys below, each with values of
  one type; the key \<open>"brand_name"\<close> is the field \<open>ud_brand_name\<close>, and so on. A key
  that is absent is \<open>None\<close> here, \<open>user_data.get(k, d)\<close> is \<open>dget (ud_k data) d\<close>, and
  \<open>user_data.clear()\<close> gives \<open>empty_data\<close>.
\<close>

record user_data =
  ud_brand_name :: "string option"
  ud_creator_name :: "string option"
  ud_room_no :: "string option"
  ud_date_to_be_aired :: "string option"
  ud_camera_requirements :: "string option"
  ud_stage_design :: "string option"
  ud_other_technical :: "string option"
  ud_platform_mode :: "string option"
  ud_platforms :: "string list option"
  ud_platforms_other :: "string option"
  ud_export_start :: "date option"

definition empty_data :: user_data where
  "empty_data = \<lparr>ud_brand_name = None, ud_creator_name = None, ud_room_no = None,
     ud_date_to_be_aired = None, ud_camera_requirements = None, ud_stage_design = None,
     ud_other_technical = None, ud_platform_mode = None, ud_platforms = None,
     ud_platforms_other = None, ud_export_start = None\<rparr>"

definition dget :: "'a option \<Rightarrow> 'a \<Rightarrow> 'a" where
  "dget v d = (case v of Some x \<Rightarrow> x | None \<Rightarrow> d)"

text \<open>
  An inline keyboard is its rows of buttons, a button its label and its callback token.
  The chats a message can go to are a numeric chat id or an \<open>@name\<close>.
\<close>

type_synonym keyboard = "(string \<times> string) list list"

datatype chat = ChatId int | ChatName string

text \<open>
  A record as \<open>get_all_records()\<close> returns it: the cells of a row under the header names, in
  header order, every cell already as text (\<open>str(r.get(k, ""))\<close> is \<open>rget r k\<close>).
\<close>

type_synonym sheet_record = "(string \<times> string) list"

definition rget :: "sheet_record \<Rightarrow> string \<Rightarrow> string" where
  "rget r k = (case map_of r k of Some v \<Rightarrow> v | None \<Rightarrow> [])"

text \<open>Everything a handler does to the outside, in the order it does it.\<close>

datatype effect =
    Answer
  | EditText string "keyboard option"
  | EditMarkup keyboard
  | Reply string "keyboard option"
  | SendMessage chat string
  | SendDocument chat "string list" "sheet_record list" string
  | SheetRead
  | SheetAppend "string list"
  | Log string

type_synonym result = "effect list \<times> user_data \<times> outcome"

section \<open>Sets of platform names\<close>

text \<open>
  A Python set of names is modelled by the list of its members, each once, in the order
  they were put in. \<open>set(xs)\<close> is \<open>set_of xs\<close>, \<open>s.add(x)\<close> is \<open>set_add x s\<close>,
  \<open>s.remove(x)\<close> is \<open>set_remove x s\<close> (the source calls it only on a member).
  The order in which \<open>list(s)\<close> lists the members is the order of the hash table, which the
  program does not control (text hashes differ from process to process); it is the
  parameter \<open>iter\<close> of the handlers, and all that is known of it is \<open>rearranges iter\<close>.
\<close>

definition set_add :: "string \<Rightarrow> string list \<Rightarrow> string list" where
  "set_add x s = (if x \<in> set s then s else s @ [x])"

definition set_remove :: "string \<Rightarrow> string list \<Rightarrow> string list" where
  "set_remove x s = removeAll x s"

definition set_of :: "string list \<Rightarrow> string list" where
  "set_of xs = foldl (\<lambda>s x. set_add x s) [] xs"

definition rearranges :: "(string list \<Rightarrow> string list) \<Rightarrow> bool" where
  "rearranges iter = (\<forall>xs. mset (iter xs) = mset xs)"

section \<open>Keyboards and the summary\<close>

definition platform_mode_keyboard :: keyboard where
  "platform_mode_keyboard =
     [[(''Single Platform'', ''mode:single'')], [(''Multistreaming'', ''mode:multi'')]]"

definition platforms_keyboard :: "string list \<Rightarrow> keyboard" where
  "platforms_keyboard selected =
     map (\<lambda>name. [((if name \<in> set selected then ''[x]'' else ''[ ]'') @ '' '' @ name,
                   ''platform:'' @ name)]) PLATFORMS
     @ [[(''Done'', ''platform:done'')]]"

definition confirm_keyboard :: keyboard where
  "confirm_keyboard = [[(''Confirm'', ''confirm:yes'')], [(''Cancel'', ''confirm:no'')]]"

definition format_summary :: "user_data \<Rightarrow> string" where
  "format_summary d =
     (let platforms_txt = join '', '' (dget (ud_platforms d) []);
          other_platforms = strip (dget (ud_platforms_other d) [])
      in ''Brand Name: '' @ dget (ud_brand_name d) [] @ [CHR 0x0A]
       @ ''Creator Name: '' @ dget (ud_creator_name d) [] @ [CHR 0x0A]
       @ ''Room No / Room Letter: '' @ dget (ud_room_no d) [] @ [CHR 0x0A]
       @ ''Date to be Aired: '' @ dget (ud_date_to_be_aired d) [] @ [CHR 0x0A]
       @ ''Camera Requirements: '' @ dget (ud_camera_requirements d) [] @ [CHR 0x0A]
       @ ''Stage Design: '' @ dget (ud_stage_design d) [] @ [CHR 0x0A]
       @ ''Other Technical Requirements: '' @ dget (ud_other_technical d) [] @ [CHR 0x0A]
       @ ''Platform Mode: '' @ dget (ud_platform_mode d) [] @ [CHR 0x0A]
       @ ''Platforms: '' @ platforms_txt @ [CHR 0x0A]
       @ ''Other Platforms: '' @ (if other_platforms \<noteq> [] then other_platforms else ''N/A''))"

section \<open>The environment of a handler\<close>

text \<open>
  The sender of an update, and what surrounds one handler call: the two lists of names read
  from the process environment, the sheet id, the clock reading of
  \<open>datetime.now(TIMEZONE)\<close>, what reading all records of the sheet gives (\<open>Inl\<close> the text
  of the exception when \<open>_get_sheet\<close> or \<open>get_all_records\<close> raises), whether \<open>_append_row\<close>
  raises, whether \<open>context.bot.send_message\<close> or \<open>send_document\<close> to a chat raises, and the
  order in which a set is listed. Of the calls on the incoming message or query, the
  \<open>query.edit_message_text\<close> calls of \<open>confirm_submit\<close> can raise (\<open>edit_error\<close>);
  \<open>answer\<close>, \<open>reply_text\<close> and the edits of the other handlers are taken to succeed.
  In the trace of effects, \<open>SheetRead\<close> is an attempt to read the sheet,
  \<open>SheetAppend row\<close> a row that \<open>_append_row\<close> has appended, \<open>SendMessage\<close>,
  \<open>SendDocument\<close> and, in \<open>confirm_submit\<close>, \<open>EditText\<close> attempts to send or to edit.
  A document is given by its column names, its records and its file name.
\<close>

record user =
  username :: "string option"
  user_id :: int

record env =
  NOTIFY_USERNAMES :: "string list"
  ADMIN_USERNAMES :: "string list"
  SHEET_ID :: string
  now :: datetime
  sheet_records :: "string + sheet_record list"
  append_error :: "string option"
  send_error :: "chat \<Rightarrow> string option"
  edit_error :: "string option"
  iter_order :: "string list \<Rightarrow> string list"

text \<open>What a handler returns when its last call may have raised.\<close>

definition raised_or :: "string option \<Rightarrow> outcome \<Rightarrow> outcome" where
  "raised_or err out = (case err of Some exc \<Rightarrow> Raised exc | None \<Rightarrow> out)"

text \<open>
  \<open>[u.strip().lstrip("@") for u in os.getenv(NAME, "").split(",") if u.strip()]\<close>, the
  value of \<open>NOTIFY_USERNAMES\<close> and of \<open>ADMIN_USERNAMES\<close>.
\<close>

fun split_on :: "char \<Rightarrow> string \<Rightarrow> string list" where
  "split_on c [] = [[]]"
| "split_on c (x # xs) =
     (if x = c then [] # split_on c xs
      else (let r = split_on c xs in (x # hd r) # tl r))"

definition usernames_of_env :: "string \<Rightarrow> string list" where
  "usernames_of_env raw =
     map (\<lambda>u. lstrip_at (strip u)) (filter (\<lambda>u. strip u \<noteq> []) (split_on CHR '','' raw))"

definition is_admin :: "string list \<Rightarrow> user \<Rightarrow> bool" where
  "is_admin admins u =
     (let name = strip (dget (username u) [])
      in if name = [] then False else lstrip_at name \<in> set admins)"

definition action_keyboard :: "bool \<Rightarrow> keyboard" where
  "action_keyboard admin =
     [[(''New Request'', ''action:new'')], [(''Recall Submissions'', ''action:recall'')]]
     @ (if admin then [[(''Export CSV'', ''action:export'')],
                       [(''Dashboard Link'', ''action:dashboard'')],
                       [(''Manager View'', ''action:manager'')]]
        else [])"

definition recall_keyboard :: keyboard where
  "recall_keyboard = [[(''Last 10 submissions'', ''recall:history'')],
                      [(''Search by Brand Name'', ''recall:search'')]]"

definition export_keyboard :: keyboard where
  "export_keyboard = [[(''All submissions'', ''export:all'')],
                      [(''Date range'', ''export:date'')],
                      [(''By requester'', ''export:requester'')]]"

definition last10 :: "'a list \<Rightarrow> 'a list" where
  "last10 xs = drop (length xs - 10) xs"

definition nl :: string where
  "nl = [CHR 0x0A]"

section \<open>Menu and form handlers\<close>

definition menu :: "env \<Rightarrow> user \<Rightarrow> user_data \<Rightarrow> result" where
  "menu e u d =
     ([Reply ''Hi! I can record a new request or recall past submissions. Choose an option:''
         (Some (action_keyboard (is_admin (ADMIN_USERNAMES e) u)))], d, END)"

definition action_new_entry :: "user_data \<Rightarrow> result" where
  "action_new_entry d = ([Answer, EditText ''Brand Name:'' None], d, Goto BRAND_NAME)"

definition action_recall_entry :: "user_data \<Rightarrow> result" where
  "action_recall_entry d =
     ([Answer, Log ''action_recall_entry triggered'',
       Reply ''How would you like to recall submissions?'' (Some recall_keyboard)],
      d, Goto RECALL_MENU)"

definition action_export_entry :: "env \<Rightarrow> user \<Rightarrow> user_data \<Rightarrow> result" where
  "action_export_entry e u d =
     (if \<not> is_admin (ADMIN_USERNAMES e) u then
        ([Answer, Log ''action_export_entry triggered'',
          Reply ''Sorry, only admins can export CSV.'' None], d, END)
      else
        ([Answer, Log ''action_export_entry triggered'',
          Reply ''Choose an export option:'' (Some export_keyboard)], d, Goto EXPORT_CHOICE))"

definition brand_name :: "user_data \<Rightarrow> string \<Rightarrow> result" where
  "brand_name d text =
     ([Reply ''Creator Name:'' None], d\<lparr>ud_brand_name := Some (strip text)\<rparr>,
      Goto CREATOR_NAME)"

definition creator_name :: "user_data \<Rightarrow> string \<Rightarrow> result" where
  "creator_name d text =
     ([Reply ''Room No / Room Letter:'' None], d\<lparr>ud_creator_name := Some (strip text)\<rparr>,
      Goto ROOM_NO)"

definition room_no :: "user_data \<Rightarrow> string \<Rightarrow> result" where
  "room_no d text =
     ([Reply ''Date to be Aired (e.g., 2026-02-15):'' None],
      d\<lparr>ud_room_no := Some (strip text)\<rparr>, Goto DATE_TO_BE_AIRED)"

definition date_to_be_aired :: "user_data \<Rightarrow> string \<Rightarrow> result" where
  "date_to_be_aired d text =
     ([Reply ''Camera Requirements:'' None], d\<lparr>ud_date_to_be_aired := Some (strip text)\<rparr>,
      Goto CAMERA_REQ)"

definition camera_requirements :: "user_data \<Rightarrow> string \<Rightarrow> result" where
  "camera_requirements d text =
     ([Reply ''Stage Design:'' None], d\<lparr>ud_camera_requirements := Some (strip text)\<rparr>,
      Goto STAGE_DESIGN)"

definition stage_design :: "user_data \<Rightarrow> string \<Rightarrow> result" where
  "stage_design d text =
     ([Reply ''Other Technical Requirements:'' None],
      d\<lparr>ud_stage_design := Some (strip text)\<rparr>, Goto OTHER_TECH)"

definition other_technical :: "user_data \<Rightarrow> string \<Rightarrow> result" where
  "other_technical d text =
     ([Reply ''Platform to be used:'' (Some platform_mode_keyboard)],
      d\<lparr>ud_other_technical := Some (strip text)\<rparr>, Goto PLATFORM_MODE)"

section \<open>The platform selector\<close>

definition platform_mode :: "user_data \<Rightarrow> string \<Rightarrow> result" where
  "platform_mode d qdata =
     (let mode = (if qdata = ''mode:single'' then ''Single'' else ''Multi'');
          d1 = d\<lparr>ud_platform_mode := Some mode\<rparr>;
          d2 = d1\<lparr>ud_platforms := Some []\<rparr>
      in ([Answer, EditText ''Select platform(s):'' (Some (platforms_keyboard []))],
          d2, Goto PLATFORM_SELECT))"

definition platform_select :: "(string list \<Rightarrow> string list) \<Rightarrow> user_data \<Rightarrow> string \<Rightarrow> result" where
  "platform_select iter d qdata =
     (case after_colon qdata of
        None \<Rightarrow> ([Answer], d, Raised ''IndexError'')
      | Some selection \<Rightarrow>
          let selected = set_of (dget (ud_platforms d) []);
              mode = dget (ud_platform_mode d) ''Multi''
          in if selection = ''done'' then
               let d1 = d\<lparr>ud_platforms := Some (iter selected)\<rparr>
               in if ''Others'' \<in> set selected then
                    ([Answer, EditText ''Please specify other platforms:'' None],
                     d1, Goto PLATFORM_OTHER)
                  else
                    ([Answer,
                      EditText (''Please confirm your submission:'' @ [CHR 0x0A, CHR 0x0A]
                                @ format_summary d1) (Some confirm_keyboard)],
                     d1, Goto CONFIRM_SUBMIT)
             else
               let selected1 =
                     (if mode = ''Single'' then [selection]
                      else if selection \<in> set selected then set_remove selection selected
                      else set_add selection selected)
               in ([Answer, EditMarkup (platforms_keyboard (iter selected1))],
                   d\<lparr>ud_platforms := Some (iter selected1)\<rparr>, Goto PLATFORM_SELECT))"

definition platform_other :: "user_data \<Rightarrow> string \<Rightarrow> result" where
  "platform_other d text =
     (let d1 = d\<lparr>ud_platforms_other := Some (strip text)\<rparr>
      in ([Reply (''Please confirm your submission:'' @ nl @ nl @ format_summary d1)
             (Some confirm_keyboard)],
          d1, Goto CONFIRM_SUBMIT))"

section \<open>The submission finalizer\<close>

text \<open>
  The loop over \<open>NOTIFY_USERNAMES\<close>: each send sits in its own \<open>try\<close>, and a send that
  raises is logged and the loop goes on.
\<close>

fun notify_all :: "env \<Rightarrow> string \<Rightarrow> string list \<Rightarrow> effect list" where
  "notify_all e text [] = []"
| "notify_all e text (uname # rest) =
     (if uname \<noteq> [] then
        (case send_error e (ChatName (''@'' @ uname)) of
           Some exc \<Rightarrow> [SendMessage (ChatName (''@'' @ uname)) text,
                        Log (''Failed to notify '' @ uname)]
         | None \<Rightarrow> [SendMessage (ChatName (''@'' @ uname)) text])
      else [])
     @ notify_all e text rest"

definition submit_username :: "user \<Rightarrow> string" where
  "submit_username u =
     (let name = strip (dget (username u) [])
      in if name \<noteq> [] then name else ''id:'' @ str_int (user_id u))"

definition submit_row :: "string \<Rightarrow> string \<Rightarrow> user_data \<Rightarrow> string list" where
  "submit_row timestamp uname d =
     [timestamp,
      uname,
      dget (ud_brand_name d) [],
      dget (ud_creator_name d) [],
      dget (ud_room_no d) [],
      dget (ud_date_to_be_aired d) [],
      dget (ud_camera_requirements d) [],
      dget (ud_stage_design d) [],
      dget (ud_other_technical d) [],
      dget (ud_platform_mode d) [],
      join '', '' (dget (ud_platforms d) []),
      dget (ud_platforms_other d) []]"

text \<open>
  \<open>confirm_submit\<close>. On a confirmation the row is appended first; then the success text
  is put on the message, the summary is sent to the submitting chat, and the loop over the
  observers runs. Neither the edit nor the send to the submitting chat sits in a \<open>try\<close>:
  when one of them raises, the exception leaves the handler there.
\<close>

definition confirm_submit :: "env \<Rightarrow> user \<Rightarrow> int \<Rightarrow> user_data \<Rightarrow> string \<Rightarrow> result" where
  "confirm_submit e u chat_id d qdata =
     (if qdata = ''confirm:no'' then
        ([Answer, EditText ''Submission canceled. Use /start to begin again.'' None], d,
         raised_or (edit_error e) END)
      else
        let uname = submit_username u;
            timestamp = strftime_stamp (now e);
            row = submit_row timestamp uname d
        in case append_error e of
             Some exc \<Rightarrow>
               ([Answer, Log ''Failed to append row'',
                 EditText (''Sorry, I couldn't save your request. Error: '' @ exc) None],
                d, raised_or (edit_error e) END)
           | None \<Rightarrow>
               let summary = format_summary d;
                   notify_text = ''New request submitted:'' @ nl @ nl @ summary
                     @ nl @ nl @ ''Submitted by: @'' @ uname
                     @ nl @ ''Timestamp: '' @ timestamp;
                   recorded = [Answer, SheetAppend row,
                     EditText (''Your request has been recorded.'' @ nl @ nl @ summary) None];
                   echo = [SendMessage (ChatId chat_id) notify_text]
               in (case edit_error e of
                     Some exc \<Rightarrow> (recorded, d, Raised exc)
                   | None \<Rightarrow>
                       (case send_error e (ChatId chat_id) of
                          Some exc \<Rightarrow> (recorded @ echo, d, Raised exc)
                        | None \<Rightarrow>
                            (recorded @ echo @ notify_all e notify_text (NOTIFY_USERNAMES e),
                             empty_data, END))))"

text \<open>
  The header row \<open>_ensure_headers\<close> keeps in the sheet, and the cell of an appended row
  under a header name.
\<close>

definition headers :: "string list" where
  "headers = [''Timestamp'', ''Requester Username'', ''Brand Name'', ''Creator Name'',
              ''Room No / Room Letter'', ''Date to be Aired'', ''Camera Requirements'',
              ''Stage Design'', ''Other Technical Requirements'', ''Platform Mode'',
              ''Platforms'', ''Other Platforms'']"

definition record_of_row :: "string list \<Rightarrow> sheet_record" where
  "record_of_row row = zip headers row"

section \<open>Recall: history and search\<close>

definition history_line :: "sheet_record \<Rightarrow> string" where
  "history_line r = ''- '' @ rget r ''Timestamp'' @ '' | '' @ rget r ''Brand Name''
                    @ '' | '' @ rget r ''Date to be Aired''"

definition show_history :: "env \<Rightarrow> user \<Rightarrow> user_data \<Rightarrow> result" where
  "show_history e u d =
     (let name = strip (dget (username u) [])
      in if name = [] then
           ([EditText (''I couldn't find your username. ''
                       @ ''Please set a Telegram username and try again.'') None], d, END)
         else
           (case sheet_records e of
              Inl exc \<Rightarrow>
                ([SheetRead, Log ''Failed to fetch history'',
                  EditText (''Sorry, I couldn't access the sheet. Error: '' @ exc) None], d, END)
            | Inr records \<Rightarrow>
                let matches = filter (\<lambda>r. strip (rget r ''Requester Username'') = name) records;
                    latest = last10 matches
                in if latest = [] then
                     ([SheetRead, EditText ''No submissions found for your username.'' None],
                      d, END)
                   else
                     ([SheetRead,
                       EditText (''Your last submissions:'' @ nl
                                 @ join nl (map history_line latest)) None], d, END)))"

definition recall_choice :: "env \<Rightarrow> user \<Rightarrow> user_data \<Rightarrow> string \<Rightarrow> result" where
  "recall_choice e u d qdata =
     (if qdata = ''recall:history'' then
        (case show_history e u d of (effs, d1, out) \<Rightarrow> (Answer # effs, d1, out))
      else if qdata = ''recall:search'' then
        ([Answer, EditText ''Enter the Brand Name to search:'' None], d, Goto SEARCH_BRAND)
      else
        ([Answer, EditText (''Sorry, I didn't understand that recall option. ''
                            @ ''Use /menu to try again.'') None], d, END))"

definition search_line :: "sheet_record \<Rightarrow> string" where
  "search_line r = ''- '' @ rget r ''Timestamp'' @ '' | '' @ rget r ''Brand Name''
                   @ '' | '' @ rget r ''Requester Username''"

definition search_matches :: "string \<Rightarrow> sheet_record list \<Rightarrow> sheet_record list" where
  "search_matches query_text records =
     filter (\<lambda>r. contains (lower (rget r ''Brand Name'')) query_text) records"

definition search_brand :: "env \<Rightarrow> user_data \<Rightarrow> string \<Rightarrow> result" where
  "search_brand e d text =
     (let query_text = lower (strip text)
      in (case sheet_records e of
            Inl exc \<Rightarrow>
              ([SheetRead, Log ''Failed to search'',
                Reply (''Sorry, I couldn't access the sheet. Error: '' @ exc) None], d, END)
          | Inr records \<Rightarrow>
              let matches = search_matches query_text records
              in if matches = [] then
                   ([SheetRead, Reply ''No submissions found for that brand name.'' None], d, END)
                 else
                   ([SheetRead,
                     Reply (''Matches:'' @ nl @ join nl (map search_line (last10 matches))) None],
                    d, END)))"

section \<open>Export\<close>

text \<open>
  \<open>export_csv_records\<close> gives its effects and, when a send raises, the exception. The
  column names of the file are the keys of the first record.
\<close>

definition export_csv_records :: "env \<Rightarrow> sheet_record list \<Rightarrow> int \<Rightarrow> effect list \<times> string option" where
  "export_csv_records e records chat_id =
     (if records = [] then
        ([SendMessage (ChatId chat_id) ''No submissions found to export.''],
         send_error e (ChatId chat_id))
      else
        ([SendDocument (ChatId chat_id) (map fst (hd records)) records
            (''request-submissions-'' @ strftime_compact (now e) @ ''.csv'')],
         send_error e (ChatId chat_id)))"

definition export_choice :: "env \<Rightarrow> int \<Rightarrow> user_data \<Rightarrow> string \<Rightarrow> result" where
  "export_choice e chat_id d qdata =
     (case after_colon qdata of
        None \<Rightarrow> ([Answer], d, Raised ''IndexError'')
      | Some choice \<Rightarrow>
          if choice = ''all'' then
            (case sheet_records e of
               Inl exc \<Rightarrow>
                 ([Answer, EditText ''Preparing CSV export...'' None, SheetRead,
                   Log ''Failed to export CSV'',
                   Reply (''Sorry, I couldn't access the sheet. Error: '' @ exc) None], d, END)
             | Inr records \<Rightarrow>
                 (case export_csv_records e records chat_id of
                    (effs, Some exc) \<Rightarrow>
                      ([Answer, EditText ''Preparing CSV export...'' None, SheetRead] @ effs,
                       d, Raised exc)
                  | (effs, None) \<Rightarrow>
                      ([Answer, EditText ''Preparing CSV export...'' None, SheetRead] @ effs,
                       d, END)))
          else if choice = ''date'' then
            ([Answer, EditText ''Enter start date (YYYY-MM-DD):'' None], d,
             Goto EXPORT_DATE_START)
          else if choice = ''requester'' then
            ([Answer, EditText ''Enter requester username (without @):'' None], d,
             Goto EXPORT_REQUESTER)
          else ([Answer], d, ReturnNone))"

definition export_date_start :: "user_data \<Rightarrow> string \<Rightarrow> result" where
  "export_date_start d text =
     (case parse_date text of
        None \<Rightarrow>
          ([Reply ''Invalid date format. Please enter start date as YYYY-MM-DD:'' None], d,
           Goto EXPORT_DATE_START)
      | Some start \<Rightarrow>
          ([Reply ''Enter end date (YYYY-MM-DD):'' None], d\<lparr>ud_export_start := Some start\<rparr>,
           Goto EXPORT_DATE_END))"

text \<open>
  The filter loop of \<open>export_date_end\<close>. A record with an empty or unreadable timestamp
  is passed over; \<open>start <= ts_dt <= end\<close> with no start date is a TypeError that leaves
  the handler (\<open>None\<close>).
\<close>

fun filter_range :: "date option \<Rightarrow> date \<Rightarrow> sheet_record list \<Rightarrow> sheet_record list option" where
  "filter_range start end [] = Some []"
| "filter_range start end (r # rs) =
     (let ts = strip (rget r ''Timestamp'')
      in if ts = [] then filter_range start end rs
         else
           (case strptime_datetime ts of
              None \<Rightarrow> filter_range start end rs
            | Some t \<Rightarrow>
                (case start of
                   None \<Rightarrow> None
                 | Some s \<Rightarrow>
                     (case filter_range start end rs of
                        None \<Rightarrow> None
                      | Some fs \<Rightarrow>
                          Some (if date_le s (date_of t) \<and> date_le (date_of t) end
                                then r # fs else fs)))))"

definition export_date_end :: "env \<Rightarrow> int \<Rightarrow> user_data \<Rightarrow> string \<Rightarrow> result" where
  "export_date_end e chat_id d text =
     (case parse_date text of
        None \<Rightarrow>
          ([Reply ''Invalid date format. Please enter end date as YYYY-MM-DD:'' None], d,
           Goto EXPORT_DATE_END)
      | Some end \<Rightarrow>
          let start = ud_export_start d
          in if (case start of Some s \<Rightarrow> date_less end s | None \<Rightarrow> False) then
               ([Reply ''End date must be after start date. Enter end date (YYYY-MM-DD):'' None],
                d, Goto EXPORT_DATE_END)
             else
               (case sheet_records e of
                  Inl exc \<Rightarrow>
                    ([SheetRead, Log ''Failed to export CSV'',
                      Reply (''Sorry, I couldn't access the sheet. Error: '' @ exc) None],
                     d, END)
                | Inr records \<Rightarrow>
                    (case filter_range start end records of
                       None \<Rightarrow> ([SheetRead], d, Raised ''TypeError'')
                     | Some filtered \<Rightarrow>
                         (case export_csv_records e filtered chat_id of
                            (effs, Some exc) \<Rightarrow> (SheetRead # effs, d, Raised exc)
                          | (effs, None) \<Rightarrow>
                              (SheetRead # effs, d\<lparr>ud_export_start := None\<rparr>, END)))))"

definition export_requester :: "env \<Rightarrow> int \<Rightarrow> user_data \<Rightarrow> string \<Rightarrow> result" where
  "export_requester e chat_id d text =
     (let requester = lstrip_at (strip text)
      in (case sheet_records e of
            Inl exc \<Rightarrow>
              ([SheetRead, Log ''Failed to export CSV'',
                Reply (''Sorry, I couldn't access the sheet. Error: '' @ exc) None], d, END)
          | Inr records \<Rightarrow>
              (case export_csv_records e
                      (filter (\<lambda>r. strip (rget r ''Requester Username'') = requester) records)
                      chat_id of
                 (effs, Some exc) \<Rightarrow> (SheetRead # effs, d, Raised exc)
               | (effs, None) \<Rightarrow> (SheetRead # effs, d, END))))"

definition export_csv_command :: "env \<Rightarrow> user \<Rightarrow> user_data \<Rightarrow> result" where
  "export_csv_command e u d =
     (if \<not> is_admin (ADMIN_USERNAMES e) u then
        ([Reply ''Sorry, only admins can export CSV.'' None], d, END)
      else
        ([Reply ''Choose an export option:'' (Some export_keyboard)], d, Goto EXPORT_CHOICE))"

section \<open>Dashboard and manager view\<close>

definition dashboard_text :: "env \<Rightarrow> string" where
  "dashboard_text e =
     ''Dashboard link:'' @ nl @ ''https://docs.google.com/spreadsheets/d/'' @ SHEET_ID e"

definition dashboard_command :: "env \<Rightarrow> user \<Rightarrow> user_data \<Rightarrow> result" where
  "dashboard_command e u d =
     (if \<not> is_admin (ADMIN_USERNAMES e) u then
        ([Reply ''Sorry, only admins can access the dashboard link.'' None], d, ReturnNone)
      else ([Reply (dashboard_text e) None], d, ReturnNone))"

definition action_dashboard :: "env \<Rightarrow> user \<Rightarrow> user_data \<Rightarrow> result" where
  "action_dashboard e u d =
     (if \<not> is_admin (ADMIN_USERNAMES e) u then
        ([Answer, Reply ''Sorry, only admins can access the dashboard link.'' None], d,
         ReturnNone)
      else ([Answer, Reply (dashboard_text e) None], d, ReturnNone))"

text \<open>
  The dict \<open>brand_counts\<close> keeps its keys in the order they were first stored; it is an
  association list, and \<open>brand_counts[brand] = brand_counts.get(brand, 0) + 1\<close> is
  \<open>bump brand\<close>.
\<close>

definition bump :: "string \<Rightarrow> (string \<times> nat) list \<Rightarrow> (string \<times> nat) list" where
  "bump k counts =
     (if k \<in> fst ` set counts then map (\<lambda>(k', c). if k' = k then (k', c + 1) else (k', c)) counts
      else counts @ [(k, 1)])"

text \<open>
  The loop of \<open>send_manager_view\<close> over the records, on the counters \<open>last_7\<close>, \<open>last_30\<close>
  and \<open>brand_counts\<close>.
\<close>

fun manager_loop :: "datetime \<Rightarrow> sheet_record list \<Rightarrow> nat \<times> nat \<times> (string \<times> nat) list
    \<Rightarrow> nat \<times> nat \<times> (string \<times> nat) list" where
  "manager_loop now_t [] acc = acc"
| "manager_loop now_t (r # rs) (last_7, last_30, brand_counts) =
     (let b = strip (rget r ''Brand Name'');
          brand = (if b \<noteq> [] then b else ''Unknown'');
          brand_counts1 = bump brand brand_counts;
          ts = strip (rget r ''Timestamp'')
      in case strptime_datetime ts of
           None \<Rightarrow> manager_loop now_t rs (last_7, last_30, brand_counts1)
         | Some ts_dt \<Rightarrow>
             let delta = delta_days now_t ts_dt
             in manager_loop now_t rs
                  (if delta \<le> 7 then last_7 + 1 else last_7,
                   if delta \<le> 30 then last_30 + 1 else last_30,
                   brand_counts1))"

definition top_brands :: "(string \<times> nat) list \<Rightarrow> (string \<times> nat) list" where
  "top_brands brand_counts = take 5 (sort_key (\<lambda>(name, count). - int count) brand_counts)"

definition manager_message :: "datetime \<Rightarrow> sheet_record list \<Rightarrow> string" where
  "manager_message now_t records =
     (case manager_loop now_t records (0, 0, []) of
        (last_7, last_30, brand_counts) \<Rightarrow>
          let top_lines = map (\<lambda>(name, count). ''- '' @ name @ '': '' @ str_nat count)
                              (top_brands brand_counts)
          in ''Manager View'' @ nl
             @ ''Total submissions: '' @ str_nat (length records) @ nl
             @ ''Last 7 days: '' @ str_nat last_7 @ nl
             @ ''Last 30 days: '' @ str_nat last_30 @ nl
             @ ''Top brands:'' @ nl
             @ join nl (if top_lines = [] then [''- None''] else top_lines))"

definition send_manager_view :: "env \<Rightarrow> int \<Rightarrow> effect list \<times> string option" where
  "send_manager_view e chat_id =
     (case sheet_records e of
        Inl exc \<Rightarrow>
          ([SheetRead, Log ''Failed to load manager view'',
            SendMessage (ChatId chat_id) (''Sorry, I couldn't access the sheet. Error: '' @ exc)],
           send_error e (ChatId chat_id))
      | Inr records \<Rightarrow>
          ([SheetRead, SendMessage (ChatId chat_id) (manager_message (now e) records)],
           send_error e (ChatId chat_id)))"

definition manager_view_command :: "env \<Rightarrow> user \<Rightarrow> int \<Rightarrow> user_data \<Rightarrow> result" where
  "manager_view_command e u chat_id d =
     (if \<not> is_admin (ADMIN_USERNAMES e) u then
        ([Reply ''Sorry, only admins can access the manager view.'' None], d, ReturnNone)
      else
        (case send_manager_view e chat_id of
           (effs, err) \<Rightarrow> (effs, d, raised_or err ReturnNone)))"

definition action_manager :: "env \<Rightarrow> user \<Rightarrow> int \<Rightarrow> user_data \<Rightarrow> result" where
  "action_manager e u chat_id d =
     (if \<not> is_admin (ADMIN_USERNAMES e) u then
        ([Answer, Reply ''Sorry, only admins can access the manager view.'' None], d,
         ReturnNone)
      else
        (case send_manager_view e chat_id of
           (effs, err) \<Rightarrow>
             ([Answer, Reply ''Preparing manager view...'' None] @ effs, d,
              raised_or err ReturnNone)))"

definition cancel :: "user_data \<Rightarrow> result" where
  "cancel d = ([Reply ''Canceled. Use /start to begin again.'' None], empty_data, END)"

section \<open>The application: which handler gets an update\<close>

text \<open>
  An update is a text message that is not a command, a command (its name, without the
  slash), or the token of a pressed button. \<open>build_app\<close> registers, in this order, the
  commands \<open>start\<close> and \<open>menu\<close>, the conversation, and the handlers outside it; the first
  handler that accepts an update gets it. A conversation that is not running tries its
  entry points; one that is in a state tries the handlers of that state and then the
  fallbacks. A callback pattern is matched at the start of the token, \<open>$\<close> accepts the end
  of the token or a final line feed, and command names are compared in lower case.
  What the handler returns moves the conversation: a state, the end, or, for \<open>None\<close> and
  for an exception, no move.
\<close>

datatype event = Text string | Command string | Callback string

definition full_match :: "string \<Rightarrow> string \<Rightarrow> bool" where
  "full_match p s = (s = p \<or> s = p @ nl)"

definition entry_points :: "env \<Rightarrow> user \<Rightarrow> user_data \<Rightarrow> event \<Rightarrow> result option" where
  "entry_points e u d ev =
     (case ev of
        Callback q \<Rightarrow>
          if full_match ''action:new'' q then Some (action_new_entry d)
          else if full_match ''action:recall'' q then Some (action_recall_entry d)
          else if full_match ''action:export'' q then Some (action_export_entry e u d)
          else None
      | Command c \<Rightarrow> if lower c = ''export'' then Some (export_csv_command e u d) else None
      | Text t \<Rightarrow> None)"

definition on_text :: "event \<Rightarrow> (string \<Rightarrow> result) \<Rightarrow> result option" where
  "on_text ev h = (case ev of Text t \<Rightarrow> Some (h t) | _ \<Rightarrow> None)"

definition on_callback :: "event \<Rightarrow> string \<Rightarrow> (string \<Rightarrow> result) \<Rightarrow> result option" where
  "on_callback ev p h =
     (case ev of Callback q \<Rightarrow> if is_prefix p q then Some (h q) else None | _ \<Rightarrow> None)"

fun states :: "env \<Rightarrow> user \<Rightarrow> int \<Rightarrow> state \<Rightarrow> user_data \<Rightarrow> event \<Rightarrow> result option" where
  "states e u c BRAND_NAME d ev = on_text ev (brand_name d)"
| "states e u c CREATOR_NAME d ev = on_text ev (creator_name d)"
| "states e u c ROOM_NO d ev = on_text ev (room_no d)"
| "states e u c DATE_TO_BE_AIRED d ev = on_text ev (date_to_be_aired d)"
| "states e u c CAMERA_REQ d ev = on_text ev (camera_requirements d)"
| "states e u c STAGE_DESIGN d ev = on_text ev (stage_design d)"
| "states e u c OTHER_TECH d ev = on_text ev (other_technical d)"
| "states e u c PLATFORM_MODE d ev = on_callback ev ''mode:'' (platform_mode d)"
| "states e u c PLATFORM_SELECT d ev =
     on_callback ev ''platform:'' (platform_select (iter_order e) d)"
| "states e u c PLATFORM_OTHER d ev = on_text ev (platform_other d)"
| "states e u c CONFIRM_SUBMIT d ev = on_callback ev ''confirm:'' (confirm_submit e u c d)"
| "states e u c RECALL_MENU d ev = on_callback ev ''recall:'' (recall_choice e u d)"
| "states e u c SEARCH_BRAND d ev = on_text ev (search_brand e d)"
| "states e u c EXPORT_CHOICE d ev = on_callback ev ''export:'' (export_choice e c d)"
| "states e u c EXPORT_DATE_START d ev = on_text ev (export_date_start d)"
| "states e u c EXPORT_DATE_END d ev = on_text ev (export_date_end e c d)"
| "states e u c EXPORT_REQUESTER d ev = on_text ev (export_requester e c d)"
| "states e u c CHOOSING_ACTION d ev = None"

definition fallbacks :: "user_data \<Rightarrow> event \<Rightarrow> result option" where
  "fallbacks d ev =
     (case ev of Command c \<Rightarrow> if lower c = ''cancel'' then Some (cancel d) else None
      | _ \<Rightarrow> None)"

definition conv :: "env \<Rightarrow> user \<Rightarrow> int \<Rightarrow> state option \<Rightarrow> user_data \<Rightarrow> event \<Rightarrow> result option" where
  "conv e u c st d ev =
     (case st of
        None \<Rightarrow> entry_points e u d ev
      | Some s \<Rightarrow>
          (case states e u c s d ev of
             Some r \<Rightarrow> Some r
           | None \<Rightarrow> fallbacks d ev))"

definition recall_hint :: string where
  "recall_hint = ''Use /menu and choose Recall Submissions.''"

definition outside :: "env \<Rightarrow> user \<Rightarrow> int \<Rightarrow> user_data \<Rightarrow> event \<Rightarrow> result option" where
  "outside e u c d ev =
     (case ev of
        Callback q \<Rightarrow>
          if full_match ''action:dashboard'' q then Some (action_dashboard e u d)
          else if full_match ''action:manager'' q then Some (action_manager e u c d)
          else None
      | Command n \<Rightarrow>
          if lower n = ''history'' then Some ([Reply recall_hint None], d, ReturnNone)
          else if lower n = ''search'' then Some ([Reply recall_hint None], d, ReturnNone)
          else if lower n = ''dashboard'' then Some (dashboard_command e u d)
          else if lower n = ''manager'' then Some (manager_view_command e u c d)
          else None
      | Text t \<Rightarrow> None)"

definition is_menu :: "event \<Rightarrow> bool" where
  "is_menu ev = (case ev of Command n \<Rightarrow> lower n = ''start'' \<or> lower n = ''menu'' | _ \<Rightarrow> False)"

definition move :: "state option \<Rightarrow> outcome \<Rightarrow> state option" where
  "move st out = (case out of Goto s \<Rightarrow> Some s | END \<Rightarrow> None | ReturnNone \<Rightarrow> st
                  | Raised exc \<Rightarrow> st)"

text \<open>
  One update of one user in one chat: the effects, and the conversation state and the
  user data afterwards.
\<close>

definition dispatch :: "user \<Rightarrow> int \<Rightarrow> state option \<times> user_data \<Rightarrow> env \<times> event
    \<Rightarrow> effect list \<times> state option \<times> user_data" where
  "dispatch u c sd ee =
     (case (sd, ee) of ((st, d), (e, ev)) \<Rightarrow>
        if is_menu ev then
          (case menu e u d of (effs, d1, out) \<Rightarrow> (effs, st, d1))
        else
          (case conv e u c st d ev of
             Some (effs, d1, out) \<Rightarrow> (effs, move st out, d1)
           | None \<Rightarrow>
               (case outside e u c d ev of
                  Some (effs, d1, out) \<Rightarrow> (effs, st, d1)
                | None \<Rightarrow> ([], st, d))))"

text \<open>
  A run of updates of one user in one chat, each with the environment it meets, while no
  update of that user comes in from another chat; the effects are joined.
\<close>

fun run :: "user \<Rightarrow> int \<Rightarrow> state option \<times> user_data \<Rightarrow> (env \<times> event) list
    \<Rightarrow> effect list \<times> state option \<times> user_data" where
  "run u c sd [] = ([], sd)"
| "run u c sd (ee # rest) =
     (case dispatch u c sd ee of
        (effs, sd1) \<Rightarrow> (case run u c sd1 rest of (effs2, sd2) \<Rightarrow> (effs @ effs2, sd2)))"

text \<open>
  A run of updates of one user in several chats. The conversation handler keeps one state
  for each pair of chat and user (\<open>build_app\<close> leaves \<open>per_chat\<close> and \<open>per_user\<close> at their
  defaults), but \<open>context.user_data\<close> belongs to the user: all chats of the user read and
  write the same data. An update is given with its chat and the environment it meets.
\<close>

fun run_chats :: "user \<Rightarrow> (int \<Rightarrow> state option) \<times> user_data \<Rightarrow> (int \<times> env \<times> event) list
    \<Rightarrow> effect list \<times> (int \<Rightarrow> state option) \<times> user_data" where
  "run_chats u sd [] = ([], sd)"
| "run_chats u (sts, d) ((c, ee) # rest) =
     (case dispatch u c (sts c, d) ee of
        (effs, st1, d1) \<Rightarrow>
          (case run_chats u (sts(c := st1), d1) rest of (effs2, sd2) \<Rightarrow> (effs @ effs2, sd2)))"

section \<open>Observations used in the statements\<close>

text \<open>
  The session data after the selector has handled the button of one catalog entry, and
  after it has handled the buttons of a list of entries one after the other; and the
  selection set that the session data hold.
\<close>

definition toggle :: "(string list \<Rightarrow> string list) \<Rightarrow> user_data \<Rightarrow> string \<Rightarrow> user_data" where
  "toggle iter d name = fst (snd (platform_select iter d (''platform:'' @ name)))"

definition toggles :: "(string list \<Rightarrow> string list) \<Rightarrow> user_data \<Rightarrow> string list \<Rightarrow> user_data" where
  "toggles iter d names = foldl (toggle iter) d names"

definition selection :: "user_data \<Rightarrow> string set" where
  "selection d = set (dget (ud_platforms d) [])"

text \<open>
  The chats to which a send was attempted, the rows that were appended to the sheet, the
  exports that were sent (the chat and the records of each file), and the cells the
  appended rows have under one header name, each in the order of the trace.
\<close>

fun attempted :: "effect list \<Rightarrow> chat list" where
  "attempted [] = []"
| "attempted (SendMessage c t # es) = c # attempted es"
| "attempted (x # es) = attempted es"

fun written :: "effect list \<Rightarrow> string list list" where
  "written [] = []"
| "written (SheetAppend row # es) = row # written es"
| "written (x # es) = written es"

fun documents :: "effect list \<Rightarrow> (chat \<times> sheet_record list) list" where
  "documents [] = []"
| "documents (SendDocument c cols rs name # es) = (c, rs) # documents es"
| "documents (x # es) = documents es"

definition field :: "string \<Rightarrow> effect list \<Rightarrow> string list" where
  "field k effs = map (\<lambda>row. rget (record_of_row row) k) (written effs)"

text \<open>
  The age of a record at a clock reading, in microseconds, when its timestamp can be read;
  and whether that age is less than \<open>n + 1\<close> whole days (a timestamp later than the clock
  reading has a negative age).
\<close>

definition age :: "datetime \<Rightarrow> sheet_record \<Rightarrow> int option" where
  "age now_t r =
     map_option (\<lambda>t. microseconds now_t - microseconds t)
       (strptime_datetime (strip (rget r ''Timestamp'')))"

definition within_days :: "int \<Rightarrow> datetime \<Rightarrow> sheet_record \<Rightarrow> bool" where
  "within_days n now_t r =
     (case age now_t r of Some a \<Rightarrow> a < (n + 1) * 86400000000 | None \<Rightarrow> False)"

section \<open>Concrete inputs of the examples\<close>

text \<open>
  A user who is on the admin list, an environment with two observers in which nothing
  fails and sets are listed in insertion order, and a filled-in session.
\<close>

definition ana :: user where
  "ana = \<lparr>username = Some ''ana'', user_id = 7\<rparr>"

definition noon :: datetime where
  "noon = \<lparr>dt_year = 2026, dt_month = 11, dt_day = 4, dt_hour = 12, dt_minute = 0,
            dt_second = 0, dt_microsecond = 0\<rparr>"

definition env0 :: env where
  "env0 = \<lparr>NOTIFY_USERNAMES = [''boss'', ''it_lead''], ADMIN_USERNAMES = [''ana''],
            SHEET_ID = ''sheet1'', now = noon,
            sheet_records = Inr [], append_error = None, send_error = (\<lambda>c. None),
            edit_error = None, iter_order = (\<lambda>xs. xs)\<rparr>"

definition filled :: user_data where
  "filled = \<lparr>ud_brand_name = Some ''Acme'', ud_creator_name = Some ''Bea'',
     ud_room_no = Some ''B'', ud_date_to_be_aired = Some ''2026-02-15'',
     ud_camera_requirements = Some ''2 cams'', ud_stage_design = Some ''plain'',
     ud_other_technical = Some ''none'', ud_platform_mode = Some ''Multi'',
     ud_platforms = Some [''Others'', ''TikTok''],
     ud_platforms_other = Some ''Podcast Clips'', ud_export_start = None\<rparr>"

text \<open>
  The user declines the filled-in submission, then files a new request on Facebook alone
  and confirms it.
\<close>

definition second_request :: "event list" where
  "second_request = [Callback ''confirm:no'', Command ''start'', Callback ''action:new'',
     Text ''Zeta'', Text ''Cy'', Text ''C'', Text ''2026-03-01'', Text ''1 cam'', Text ''bare'',
     Text ''none'', Callback ''mode:single'', Callback ''platform:Facebook'',
     Callback ''platform:done'', Callback ''confirm:yes'']"

text \<open>
  From the mode prompt: Multi, toggle Others, toggle TikTok, done, the other-platform
  text, confirm. And a listing order of sets that puts TikTok first, as a hash table may.
\<close>

definition others_tiktok :: "event list" where
  "others_tiktok = [Callback ''mode:multi'', Callback ''platform:Others'',
     Callback ''platform:TikTok'', Callback ''platform:done'', Text ''Podcast Clips'',
     Callback ''confirm:yes'']"

definition tiktok_first :: "string list \<Rightarrow> string list" where
  "tiktok_first xs = filter (\<lambda>x. x = ''TikTok'') xs @ filter (\<lambda>x. x \<noteq> ''TikTok'') xs"

definition env_tiktok_first :: env where
  "env_tiktok_first = env0\<lparr>iter_order := tiktok_first\<rparr>"

text \<open>
  Environments in which the send to the submitting chat, the send to one observer, or the
  edit of the submitter's message fails.
\<close>

definition env_echo_fails :: env where
  "env_echo_fails =
     env0\<lparr>send_error := (\<lambda>c. if c = ChatId 7 then Some ''Forbidden'' else None)\<rparr>"

definition env_observer_fails :: env where
  "env_observer_fails =
     env0\<lparr>send_error := (\<lambda>c. if c = ChatName ''@boss'' then Some ''Forbidden'' else None)\<rparr>"

definition env_edit_fails :: env where
  "env_edit_fails = env0\<lparr>edit_error := Some ''Timed out''\<rparr>"

text \<open>The user confirms while the echo fails, and presses the button again.\<close>

definition confirm_twice :: "(env \<times> event) list" where
  "confirm_twice = [(env_echo_fails, Callback ''confirm:yes''), (env0, Callback ''confirm:yes'')]"

text \<open>A sheet of three records, two of them of brands that contain \<open>acme\<close>.\<close>

definition acme_records :: "sheet_record list" where
  "acme_records =
     [record_of_row [''2026-01-05 09:00:00'', ''ana'', ''ACME Corp'', ''Bea'', ''B'',
        ''2026-02-15'', ''2 cams'', ''plain'', ''none'', ''Single'', ''Facebook'', ''''],
      record_of_row [''2026-01-20 15:30:00'', ''cy'', ''Zeta'', ''Di'', ''C'',
        ''2026-02-20'', ''1 cam'', ''bare'', ''none'', ''Single'', ''YouTube'', ''''],
      record_of_row [''2026-02-01 10:00:00'', ''bob'', ''Acme2'', ''Eli'', ''A'',
        ''2026-03-01'', ''3 cams'', ''green'', ''none'', ''Single'', ''TikTok'', '''']]"

definition env_acme :: env where
  "env_acme = env0\<lparr>sheet_records := Inr acme_records\<rparr>"

text \<open>
  An admin opens the export by date range in chat 7 and gives the start date 10 March;
  then, in chat 8, the same admin opens it again and gives the start date 1 January.
\<close>

definition chat7_start :: "(int \<times> env \<times> event) list" where
  "chat7_start = [(7, env_acme, Command ''export''), (7, env_acme, Callback ''export:date''),
                  (7, env_acme, Text ''2026-03-10'')]"

definition chat8_start :: "(int \<times> env \<times> event) list" where
  "chat8_start = [(8, env_acme, Command ''export''), (8, env_acme, Callback ''export:date''),
                  (8, env_acme, Text ''2026-01-01'')]"

text \<open>A record stamped seven days and twenty-three hours before \<open>noon\<close>.\<close>

definition old_record :: sheet_record where
  "old_record = record_of_row [''2026-10-27 13:00:00'', ''ana'', ''Acme'', ''Bea'', ''B'',
     ''2026-11-01'', ''2 cams'', ''plain'', ''none'', ''Single'', ''Facebook'', '''']"

section \<open>The platform selector: properties\<close>

lemma after_colon_platform: "after_colon (''platform:'' @ n) = Some n"
  by simp

lemma set_set_add: "set (set_add x s) = insert x (set s)"
  by (auto simp: set_add_def)

lemma set_foldl_set_add: "set (foldl (\<lambda>s x. set_add x s) acc xs) = set acc \<union> set xs"
  by (induction xs arbitrary: acc) (auto simp: set_set_add)

lemma set_set_of: "set (set_of xs) = set xs"
  by (simp add: set_of_def set_foldl_set_add)

lemma rearranges_set: "rearranges iter \<Longrightarrow> set (iter xs) = set xs"
  unfolding rearranges_def by (metis set_mset_mset)

lemma rearranges_single: "rearranges iter \<Longrightarrow> iter [x] = [x]"
  unfolding rearranges_def by (metis mset_single_iff_right mset.simps)

lemma rearranges_id: "rearranges (\<lambda>xs. xs)"
  by (simp add: rearranges_def)

lemma toggle_mode: "n \<noteq> ''done'' \<Longrightarrow> ud_platform_mode (toggle iter d n) = ud_platform_mode d"
  by (simp add: toggle_def platform_select_def Let_def)

lemma toggle_single:
  "rearranges iter \<Longrightarrow> ud_platform_mode d = Some ''Single'' \<Longrightarrow> n \<noteq> ''done'' \<Longrightarrow>
   ud_platforms (toggle iter d n) = Some [n]"
  by (simp add: toggle_def platform_select_def Let_def dget_def rearranges_single)

lemma toggles_mode:
  "''done'' \<notin> set ns \<Longrightarrow> ud_platform_mode (toggles iter d ns) = ud_platform_mode d"
proof (induction ns arbitrary: d)
  case Nil
  then show ?case by (simp add: toggles_def)
next
  case (Cons n ns)
  then have "n \<noteq> ''done''" and "''done'' \<notin> set ns" by auto
  with Cons.IH [of "toggle iter d n"] show ?case
    by (simp add: toggles_def toggle_mode)
qed

lemma toggles_snoc: "toggles iter d (ns @ [n]) = toggle iter (toggles iter d ns) n"
  by (simp add: toggles_def)

text \<open>
  C1. In Single mode, whatever entries were toggled before, after the selector has handled
  the toggle of an entry the stored selection is exactly that entry, so the selection set
  has at most one member after every toggle event; and from the choice of Single mode on,
  it has at most one member after any number of toggle events, none included.
\<close>

theorem single_mode_selection:
  assumes "rearranges iter" and "ud_platform_mode d = Some ''Single''"
    and "''done'' \<notin> set ns" and "name \<noteq> ''done''"
  shows "ud_platforms (toggles iter d (ns @ [name])) = Some [name]
       \<and> selection (toggles iter d (ns @ [name])) = {name}
       \<and> card (selection (toggles iter d (ns @ [name]))) \<le> 1
       \<and> card (selection (toggles iter (fst (snd (platform_mode d0 ''mode:single''))) ns)) \<le> 1"
proof -
  have step: "ud_platforms (toggles iter d' (ms @ [m])) = Some [m]"
    if "ud_platform_mode d' = Some ''Single''" and "''done'' \<notin> set ms" and "m \<noteq> ''done''"
    for d' ms m
  proof -
    have "ud_platform_mode (toggles iter d' ms) = Some ''Single''"
      using that(1,2) by (simp add: toggles_mode)
    then show ?thesis
      using assms(1) that(3) by (simp add: toggles_snoc toggle_single)
  qed
  have a: "ud_platforms (toggles iter d (ns @ [name])) = Some [name]"
    using assms(2,3,4) by (rule step)
  let ?d1 = "fst (snd (platform_mode d0 ''mode:single''))"
  have m1: "ud_platform_mode ?d1 = Some ''Single''" and p1: "ud_platforms ?d1 = Some []"
    by (simp_all add: platform_mode_def)
  have b: "card (selection (toggles iter ?d1 ns)) \<le> 1"
  proof (cases ns rule: rev_cases)
    case Nil
    then show ?thesis by (simp add: toggles_def selection_def p1 dget_def)
  next
    case (snoc ms m)
    with assms(3) have "''done'' \<notin> set ms" and "m \<noteq> ''done''" by auto
    with m1 have "ud_platforms (toggles iter ?d1 (ms @ [m])) = Some [m]"
      by (rule step)
    with snoc show ?thesis by (simp add: selection_def dget_def)
  qed
  from a b show ?thesis by (simp add: dget_def selection_def)
qed

theorem single_mode_selection_witness:
  "rearranges (\<lambda>xs. xs)
   \<and> ud_platform_mode (fst (snd (platform_mode empty_data ''mode:single''))) = Some ''Single''
   \<and> ''done'' \<notin> set [''Facebook'', ''TikTok''] \<and> ''Others'' \<noteq> ''done''
   \<and> ud_platforms (toggles (\<lambda>xs. xs) (fst (snd (platform_mode empty_data ''mode:single'')))
        ([''Facebook'', ''TikTok''] @ [''Others''])) = Some [''Others'']
   \<and> card (selection (toggles (\<lambda>xs. xs) (fst (snd (platform_mode empty_data ''mode:single'')))
        ([''Facebook'', ''TikTok''] @ [''Others'']))) \<le> 1"
proof -
  have h1: "rearranges (\<lambda>xs. xs)" by (rule rearranges_id)
  have h2: "ud_platform_mode (fst (snd (platform_mode empty_data ''mode:single''))) = Some ''Single''"
    by (simp add: platform_mode_def)
  have h3: "''done'' \<notin> set [''Facebook'', ''TikTok'']" by simp
  have h4: "''Others'' \<noteq> ''done''" by simp
  note r = single_mode_selection [OF h1 h2 h3 h4]
  show ?thesis
    by (intro conjI)
      (rule h1 h2 h3 h4 r [THEN conjunct1] r [THEN conjunct2, THEN conjunct2, THEN conjunct1])+
qed

lemma toggle_multi:
  assumes "rearranges iter" and "ud_platform_mode d \<noteq> Some ''Single''" and "n \<noteq> ''done''"
  shows "selection (toggle iter d n) = (selection d - {n}) \<union> ({n} - selection d)"
proof -
  have m: "dget (ud_platform_mode d) ''Multi'' \<noteq> ''Single''"
    using assms(2) by (cases "ud_platform_mode d") (simp_all add: dget_def)
  show ?thesis
    using assms(1,3) m
    by (auto simp: selection_def toggle_def platform_select_def Let_def rearranges_set set_set_of
        set_set_add set_remove_def dget_def)
qed

lemma toggles_multi_member:
  assumes "rearranges iter" and "ud_platform_mode d \<noteq> Some ''Single''"
    and "''done'' \<notin> set ns"
  shows "x \<in> selection (toggles iter d ns) \<longleftrightarrow> (x \<in> selection d) \<noteq> odd (count_list ns x)"
  using assms(3)
proof (induction ns rule: rev_induct)
  case Nil
  then show ?case by (simp add: toggles_def)
next
  case (snoc n ns)
  have nd: "''done'' \<notin> set ns" and n: "n \<noteq> ''done''"
    using snoc.prems by auto
  have mode: "ud_platform_mode (toggles iter d ns) \<noteq> Some ''Single''"
    using assms(2) nd by (simp add: toggles_mode)
  have "x \<in> selection (toggles iter d (ns @ [n])) \<longleftrightarrow>
        (x \<in> selection (toggles iter d ns)) \<noteq> (x = n)"
    using toggle_multi [OF assms(1) mode n] by (auto simp: toggles_snoc)
  then show ?case
    using snoc.IH [OF nd] by auto
qed

text \<open>
  C2. In Multi mode (any stored mode other than Single) a toggle flips the membership of the
  chosen entry: the selection set afterwards is the symmetric difference with that entry.
  After any sequence of toggles an entry is selected exactly when its membership at the
  start differs from the parity of the number of times it was toggled, and toggling one
  entry twice in a row leaves the selection set as it was.
\<close>

theorem multi_mode_symmetric_toggles:
  assumes "rearranges iter" and "ud_platform_mode d \<noteq> Some ''Single''"
    and "''done'' \<notin> set ns" and "name \<noteq> ''done''"
  shows "selection (toggle iter d name) = (selection d - {name}) \<union> ({name} - selection d)
       \<and> selection (toggles iter d ns) = {x. (x \<in> selection d) \<noteq> odd (count_list ns x)}
       \<and> selection (toggles iter d [name, name]) = selection d"
proof -
  have a: "selection (toggle iter d name) = (selection d - {name}) \<union> ({name} - selection d)"
    using assms(1,2,4) by (rule toggle_multi)
  have b: "selection (toggles iter d ns) = {x. (x \<in> selection d) \<noteq> odd (count_list ns x)}"
    using toggles_multi_member [OF assms(1,2,3)] by blast
  have nn: "''done'' \<notin> set [name, name]" using assms(4) by auto
  have "\<And>x. x \<in> selection (toggles iter d [name, name]) \<longleftrightarrow> x \<in> selection d"
    by (simp add: toggles_multi_member [OF assms(1,2) nn])
  then have c: "selection (toggles iter d [name, name]) = selection d" by blast
  show ?thesis using a b c by blast
qed

theorem multi_mode_symmetric_toggles_witness:
  "rearranges rev
   \<and> ud_platform_mode (fst (snd (platform_mode empty_data ''mode:multi''))) \<noteq> Some ''Single''
   \<and> ''done'' \<notin> set [''Others'', ''TikTok'', ''Others''] \<and> ''Lazada'' \<noteq> ''done''
   \<and> selection (toggles rev (fst (snd (platform_mode empty_data ''mode:multi'')))
        [''Others'', ''TikTok'', ''Others'']) = {''TikTok''}
   \<and> selection (toggles rev (fst (snd (platform_mode empty_data ''mode:multi'')))
        [''Lazada'', ''Lazada'']) = {}"
proof -
  let ?d = "fst (snd (platform_mode empty_data ''mode:multi''))"
  have h1: "rearranges rev" by (simp add: rearranges_def)
  have h2: "ud_platform_mode ?d \<noteq> Some ''Single''" by (simp add: platform_mode_def)
  have h3: "''done'' \<notin> set [''Others'', ''TikTok'', ''Others'']" by simp
  have h4: "''Lazada'' \<noteq> ''done''" by simp
  have s: "selection ?d = {}" by (simp add: platform_mode_def selection_def dget_def)
  note r = multi_mode_symmetric_toggles [OF h1 h2 h3 h4]
  have c1: "selection (toggles rev ?d [''Others'', ''TikTok'', ''Others'']) = {''TikTok''}"
  proof -
    have "selection (toggles rev ?d [''Others'', ''TikTok'', ''Others''])
          = {x. odd (count_list [''Others'', ''TikTok'', ''Others''] x)}"
      using r s by simp
    also have "\<dots> = {''TikTok''}"
      by (rule set_eqI) simp
    finally show ?thesis .
  qed
  have c2: "selection (toggles rev ?d [''Lazada'', ''Lazada'']) = {}"
    using r s by simp
  show ?thesis
    by (intro conjI) (rule h1 h2 h3 h4 c1 c2)+
qed

text \<open>
  C10. In the state \<open>PLATFORM_MODE\<close> every callback token that starts with \<open>mode:\<close> and
  is not exactly \<open>mode:single\<close> is accepted: the handler stores the mode Multi and an
  empty selection, and the conversation moves on to the platform selection.
\<close>

theorem mode_token_multi:
  assumes "is_prefix ''mode:'' q" and "q \<noteq> ''mode:single''"
  shows "dispatch u c (Some PLATFORM_MODE, d) (e, Callback q) =
           ([Answer, EditText ''Select platform(s):'' (Some (platforms_keyboard []))],
            Some PLATFORM_SELECT,
            d\<lparr>ud_platform_mode := Some ''Multi'', ud_platforms := Some []\<rparr>)
       \<and> platform_mode d q =
           ([Answer, EditText ''Select platform(s):'' (Some (platforms_keyboard []))],
            d\<lparr>ud_platform_mode := Some ''Multi'', ud_platforms := Some []\<rparr>,
            Goto PLATFORM_SELECT)"
  using assms
  by (simp add: dispatch_def is_menu_def conv_def on_callback_def platform_mode_def move_def)

theorem mode_token_multi_witness:
  "is_prefix ''mode:'' ''mode:both'' \<and> ''mode:both'' \<noteq> ''mode:single''
   \<and> dispatch ana 7 (Some PLATFORM_MODE, empty_data) (env0, Callback ''mode:both'') =
       ([Answer, EditText ''Select platform(s):'' (Some (platforms_keyboard []))],
        Some PLATFORM_SELECT,
        empty_data\<lparr>ud_platform_mode := Some ''Multi'', ud_platforms := Some []\<rparr>)"
proof -
  have h1: "is_prefix ''mode:'' ''mode:both''" by simp
  have h2: "''mode:both'' \<noteq> ''mode:single''" by simp
  note r = mode_token_multi [OF h1 h2]
  show ?thesis
    by (intro conjI) (rule h1 h2 r [THEN conjunct1])+
qed

section \<open>The order of the platforms field\<close>

lemma rearranges_tiktok_first: "rearranges tiktok_first"
  by (simp add: rearranges_def tiktok_first_def)

lemma rearranges_pair:
  assumes "rearranges iter" shows "iter [a, b] = [a, b] \<or> iter [a, b] = [b, a]"
proof -
  have m: "mset (iter [a, b]) = mset [a, b]"
    using assms by (simp add: rearranges_def)
  then have "length (iter [a, b]) = length [a, b]"
    by (rule mset_eq_length)
  then obtain x y where xy: "iter [a, b] = [x, y]"
    by (cases "iter [a, b]" rule: list.exhaust; simp)
      (metis length_0_conv length_Suc_conv)
  with m have "add_mset x {#y#} = add_mset a {#b#}" by simp
  then have "(x = a \<and> y = b) \<or> (x = b \<and> y = a)"
    by (auto simp: add_eq_conv_diff)
  with xy show ?thesis by auto
qed

lemma written_append: "written (xs @ ys) = written xs @ written ys"
  by (induction xs rule: written.induct) simp_all

lemma written_notify_all: "written (notify_all e t us) = []"
  by (induction us) (auto simp: written_append split: option.splits)

lemmas run_defs = dispatch_def is_menu_def conv_def on_callback_def on_text_def move_def
  platform_mode_def platform_select_def platform_other_def confirm_submit_def Let_def
  dget_def set_of_def set_add_def set_remove_def

lemmas text_defs = strip_def lstrip_def rstrip_def isspace_def

lemma scenario_written:
  assumes "append_error e = None"
    and "iter_order e [''Others''] = [''Others'']"
    and "iter_order e [''Others'', ''TikTok''] = xs"
    and "iter_order e xs = ys"
    and "xs = [''Others'', ''TikTok''] \<or> xs = [''TikTok'', ''Others'']"
  shows "written (fst (run u c (Some PLATFORM_MODE, d) (map (Pair e) others_tiktok))) =
          [submit_row (strftime_stamp (now e)) (submit_username u)
             (d\<lparr>ud_platform_mode := Some ''Multi'', ud_platforms := Some ys,
                ud_platforms_other := Some ''Podcast Clips''\<rparr>)]"
proof -
  from assms(5) show ?thesis
  proof
    assume x: "xs = [''Others'', ''TikTok'']"
    with assms(3,4) have "iter_order e [''Others'', ''TikTok''] = [''Others'', ''TikTok'']"
      and "iter_order e [''Others'', ''TikTok''] = ys" by simp_all
    with assms(1,2) show ?thesis
      by (simp add: others_tiktok_def run_defs text_defs written_append written_notify_all
          split: option.splits)
  next
    assume x: "xs = [''TikTok'', ''Others'']"
    with assms(3,4) have "iter_order e [''Others'', ''TikTok''] = [''TikTok'', ''Others'']"
      and "iter_order e [''TikTok'', ''Others''] = ys" by simp_all
    with assms(1,2) show ?thesis
      by (simp add: others_tiktok_def run_defs text_defs written_append written_notify_all
          split: option.splits)
  qed
qed

lemma field_submit_row:
  "rget (record_of_row (submit_row t n d)) ''Platforms'' = join '', '' (dget (ud_platforms d) [])"
  "rget (record_of_row (submit_row t n d)) ''Other Platforms'' = dget (ud_platforms_other d) []"
  by (simp_all add: record_of_row_def headers_def submit_row_def rget_def)

text \<open>
  C4 (as the code has it). For the Multi-mode session that toggles Others, then TikTok,
  presses done, gives the other-platform text \<open>Podcast Clips\<close> and confirms, with a write
  that succeeds: exactly one row is written; its platforms field is the comma-joined list
  of the two selected platforms in the order in which the set lists them, which is either
  \<open>Others, TikTok\<close> or \<open>TikTok, Others\<close> whatever the order of the toggles; its
  other-platforms field is \<open>Podcast Clips\<close>.
\<close>

theorem platforms_field_is_a_listing:
  assumes "rearranges (iter_order e)" and "append_error e = None"
  shows "field ''Platforms'' (fst (run u c (Some PLATFORM_MODE, d) (map (Pair e) others_tiktok)))
           \<in> {[''Others, TikTok''], [''TikTok, Others'']}
       \<and> field ''Other Platforms''
           (fst (run u c (Some PLATFORM_MODE, d) (map (Pair e) others_tiktok)))
           = [''Podcast Clips'']"
proof -
  define xs where "xs = iter_order e [''Others'', ''TikTok'']"
  define ys where "ys = iter_order e xs"
  have p1: "iter_order e [''Others''] = [''Others'']"
    using assms(1) by (rule rearranges_single)
  have x: "xs = [''Others'', ''TikTok''] \<or> xs = [''TikTok'', ''Others'']"
    unfolding xs_def using assms(1) by (rule rearranges_pair)
  have y: "ys = [''Others'', ''TikTok''] \<or> ys = [''TikTok'', ''Others'']"
    using x rearranges_pair [OF assms(1)] unfolding ys_def by metis
  have w: "written (fst (run u c (Some PLATFORM_MODE, d) (map (Pair e) others_tiktok))) =
          [submit_row (strftime_stamp (now e)) (submit_username u)
             (d\<lparr>ud_platform_mode := Some ''Multi'', ud_platforms := Some ys,
                ud_platforms_other := Some ''Podcast Clips''\<rparr>)]"
    using assms(2) p1 xs_def [symmetric] ys_def [symmetric] x by (rule scenario_written)
  have a: "field ''Platforms'' (fst (run u c (Some PLATFORM_MODE, d) (map (Pair e) others_tiktok)))
           = [join '', '' ys]"
    by (simp add: field_def w field_submit_row dget_def)
  have b: "field ''Other Platforms''
           (fst (run u c (Some PLATFORM_MODE, d) (map (Pair e) others_tiktok)))
           = [''Podcast Clips'']"
    by (simp add: field_def w field_submit_row dget_def)
  from y have "join '', '' ys = ''Others, TikTok'' \<or> join '', '' ys = ''TikTok, Others''"
    by (elim disjE) simp_all
  with a b show ?thesis by simp
qed

theorem platforms_field_is_a_listing_witness:
  "rearranges (iter_order env0) \<and> append_error env0 = None
   \<and> field ''Platforms''
       (fst (run ana 7 (Some PLATFORM_MODE, empty_data) (map (Pair env0) others_tiktok)))
     = [''Others, TikTok'']
   \<and> field ''Other Platforms''
       (fst (run ana 7 (Some PLATFORM_MODE, empty_data) (map (Pair env0) others_tiktok)))
     = [''Podcast Clips'']"
proof -
  have h1: "rearranges (iter_order env0)" by (simp add: env0_def rearranges_def)
  have h2: "append_error env0 = None" by (simp add: env0_def)
  note r = platforms_field_is_a_listing [OF h1 h2, of ana 7 empty_data]
  have c: "field ''Platforms''
       (fst (run ana 7 (Some PLATFORM_MODE, empty_data) (map (Pair env0) others_tiktok)))
     = [''Others, TikTok'']"
    by code_simp
  show ?thesis
    by (intro conjI) (rule h1 h2 c r [THEN conjunct2])+
qed

text \<open>
  C4 as stated fails: the selection is kept in a set, and where the set lists TikTok before
  Others the platforms field of the same session is \<open>TikTok, Others\<close>, not the order in
  which the entries were toggled.
\<close>

theorem platforms_field_tiktok_first:
  "rearranges (iter_order env_tiktok_first)
   \<and> field ''Platforms''
       (fst (run ana 7 (Some PLATFORM_MODE, empty_data) (map (Pair env_tiktok_first) others_tiktok)))
     = [''TikTok, Others'']"
proof -
  have "iter_order env_tiktok_first = tiktok_first"
    by (simp add: env_tiktok_first_def env0_def)
  then have a: "rearranges (iter_order env_tiktok_first)"
    by (simp add: rearranges_tiktok_first)
  have b: "field ''Platforms''
       (fst (run ana 7 (Some PLATFORM_MODE, empty_data) (map (Pair env_tiktok_first) others_tiktok)))
     = [''TikTok, Others'']"
    by code_simp
  from a b show ?thesis by simp
qed

section \<open>The submission finalizer: properties\<close>

text \<open>
  C3. On \<open>confirm:no\<close> the handler ends the conversation and writes nothing, but it leaves
  the collected data as they are: here the filled-in session is handed back unchanged,
  where \<open>cancel\<close> on the same session gives the empty one.
\<close>

theorem confirm_no_keeps_session:
  "confirm_submit env0 ana 7 filled ''confirm:no'' =
     ([Answer, EditText ''Submission canceled. Use /start to begin again.'' None], filled, END)
   \<and> filled \<noteq> empty_data
   \<and> cancel filled = ([Reply ''Canceled. Use /start to begin again.'' None], empty_data, END)"
  by (simp add: confirm_submit_def cancel_def filled_def empty_data_def raised_or_def env0_def)

text \<open>
  What stays behind is used again: a later request that does not select Others is written
  with the other-platforms text of the declined one.
\<close>

lemma stale_other_platforms:
  "field ''Platforms'' (fst (run ana 7 (Some CONFIRM_SUBMIT, filled) (map (Pair env0) second_request)))
     = [''Facebook'']
   \<and> field ''Other Platforms''
       (fst (run ana 7 (Some CONFIRM_SUBMIT, filled) (map (Pair env0) second_request)))
     = [''Podcast Clips'']"
  by code_simp

lemma attempted_append: "attempted (xs @ ys) = attempted xs @ attempted ys"
  by (induction xs rule: attempted.induct) simp_all

lemma attempted_notify_all:
  "attempted (notify_all e t us) = map (\<lambda>n. ChatName (''@'' @ n)) (filter (\<lambda>n. n \<noteq> []) us)"
  by (induction us) (auto simp: attempted_append split: option.splits)

text \<open>
  The loop over the observers does what it is there for: when the edit and the send to the
  submitting chat have gone through, a send is attempted to every configured observer, in
  order, whichever of the sends to observers fail, the handler ends and the session is
  cleared.
\<close>

lemma observers_all_attempted:
  assumes "q \<noteq> ''confirm:no''" and "append_error e = None" and "edit_error e = None"
    and "send_error e (ChatId c) = None"
  shows "attempted (fst (confirm_submit e u c d q)) =
           ChatId c # map (\<lambda>n. ChatName (''@'' @ n)) (filter (\<lambda>n. n \<noteq> []) (NOTIFY_USERNAMES e))
       \<and> snd (confirm_submit e u c d q) = (empty_data, END)"
  using assms
  by (simp add: confirm_submit_def Let_def attempted_append attempted_notify_all)

lemma observer_failure_is_swallowed:
  "attempted (fst (confirm_submit env_observer_fails ana 7 filled ''confirm:yes'')) =
     [ChatId 7, ChatName ''@boss'', ChatName ''@it_lead'']
   \<and> snd (confirm_submit env_observer_fails ana 7 filled ''confirm:yes'') = (empty_data, END)"
  by code_simp

text \<open>
  C5. The send of the summary to the submitting chat is the same call as the sends in the
  loop below it, but it is not guarded. Here the row is written and that send raises:
  the exception leaves the handler, no send to the two observers is attempted, the session
  is not cleared and the conversation still waits for the confirmation; when the user
  presses the button again, the same row is written a second time.
\<close>

theorem echo_failure_stops_fanout:
  "NOTIFY_USERNAMES env_echo_fails = [''boss'', ''it_lead'']
   \<and> append_error env_echo_fails = None
   \<and> written (fst (confirm_submit env_echo_fails ana 7 filled ''confirm:yes''))
       = [submit_row ''2026-11-04 12:00:00'' ''ana'' filled]
   \<and> attempted (fst (confirm_submit env_echo_fails ana 7 filled ''confirm:yes'')) = [ChatId 7]
   \<and> snd (confirm_submit env_echo_fails ana 7 filled ''confirm:yes'')
       = (filled, Raised ''Forbidden'')
   \<and> snd (dispatch ana 7 (Some CONFIRM_SUBMIT, filled) (env_echo_fails, Callback ''confirm:yes''))
       = (Some CONFIRM_SUBMIT, filled)
   \<and> written (fst (run ana 7 (Some CONFIRM_SUBMIT, filled) confirm_twice))
       = [submit_row ''2026-11-04 12:00:00'' ''ana'' filled,
          submit_row ''2026-11-04 12:00:00'' ''ana'' filled]"
  by code_simp

text \<open>
  The edit that reports the success is not guarded either: when it raises after the write,
  neither the echo nor any observer is tried and the session stays.
\<close>

lemma edit_failure_stops_fanout:
  "written (fst (confirm_submit env_edit_fails ana 7 filled ''confirm:yes''))
     = [submit_row ''2026-11-04 12:00:00'' ''ana'' filled]
   \<and> attempted (fst (confirm_submit env_edit_fails ana 7 filled ''confirm:yes'')) = []
   \<and> snd (confirm_submit env_edit_fails ana 7 filled ''confirm:yes'')
       = (filled, Raised ''Timed out'')"
  by code_simp

section \<open>Search\<close>

lemma last10_suffix: "\<exists>older. xs = older @ last10 xs"
  by (metis append_take_drop_id last10_def)

lemma length_last10: "length (last10 xs) = min 10 (length xs)"
  by (simp add: last10_def)

text \<open>
  C6 (as the code has it). The matches of a search are the records whose brand, in lower
  case, contains the trimmed query in lower case, in the order of the sheet; when there is
  one, the reply lists the last ten of them at most, still in the order of the sheet, the
  oldest of them first.
\<close>

theorem search_brand_last_matches:
  assumes "sheet_records e = Inr records"
    and "search_matches (lower (strip text)) records \<noteq> []"
  shows "\<exists>older shown.
           filter (\<lambda>r. contains (lower (rget r ''Brand Name'')) (lower (strip text))) records
             = older @ shown
         \<and> length shown = min 10 (length (older @ shown))
         \<and> search_brand e d text =
             ([SheetRead, Reply (''Matches:'' @ nl @ join nl (map search_line shown)) None],
              d, END)"
proof -
  let ?ms = "search_matches (lower (strip text)) records"
  obtain older where o: "?ms = older @ last10 ?ms"
    using last10_suffix by blast
  have f: "filter (\<lambda>r. contains (lower (rget r ''Brand Name'')) (lower (strip text))) records
             = older @ last10 ?ms"
    using o by (simp add: search_matches_def)
  have l: "length (last10 ?ms) = min 10 (length (older @ last10 ?ms))"
    using o length_last10 [of ?ms] by simp
  have s: "search_brand e d text =
             ([SheetRead, Reply (''Matches:'' @ nl @ join nl (map search_line (last10 ?ms))) None],
              d, END)"
    using assms by (simp add: search_brand_def Let_def)
  from f l s show ?thesis by blast
qed

theorem search_brand_last_matches_witness:
  "sheet_records env_acme = Inr acme_records
   \<and> search_matches (lower (strip ''  ACME '')) acme_records = [acme_records ! 0, acme_records ! 2]
   \<and> search_brand env_acme empty_data ''  ACME '' =
     ([SheetRead,
       Reply (''Matches:'' @ nl @ join nl (map search_line [acme_records ! 0, acme_records ! 2]))
         None],
      empty_data, END)"
proof -
  have h1: "sheet_records env_acme = Inr acme_records"
    by (simp add: env_acme_def env0_def)
  have m: "search_matches (lower (strip ''  ACME '')) acme_records
           = [acme_records ! 0, acme_records ! 2]"
    by code_simp
  then have h2: "search_matches (lower (strip ''  ACME '')) acme_records \<noteq> []"
    by simp
  from search_brand_last_matches [OF h1 h2, of empty_data]
  obtain older shown where
    f: "filter (\<lambda>r. contains (lower (rget r ''Brand Name'')) (lower (strip ''  ACME '')))
          acme_records = older @ shown"
    and l: "length shown = min 10 (length (older @ shown))"
    and s: "search_brand env_acme empty_data ''  ACME '' =
             ([SheetRead, Reply (''Matches:'' @ nl @ join nl (map search_line shown)) None],
              empty_data, END)"
    by blast
  from f m have eq: "older @ shown = [acme_records ! 0, acme_records ! 2]"
    by (simp add: search_matches_def)
  then have "length (older @ shown) = 2"
    by simp
  with l have "older = []"
    by simp
  with eq have "shown = [acme_records ! 0, acme_records ! 2]"
    by simp
  with s have c: "search_brand env_acme empty_data ''  ACME '' =
     ([SheetRead,
       Reply (''Matches:'' @ nl @ join nl (map search_line [acme_records ! 0, acme_records ! 2]))
         None],
      empty_data, END)" by simp
  show ?thesis
    by (intro conjI) (rule h1 m c)+
qed

text \<open>
  C6 as stated fails on the order: for the sheet with \<open>ACME Corp\<close> appended before
  \<open>Acme2\<close>, the query \<open>acme\<close> finds both and lists the older one first.
\<close>

theorem search_lists_oldest_first:
  "search_brand env_acme empty_data ''acme'' =
     ([SheetRead,
       Reply (''Matches:'' @ nl @ ''- 2026-01-05 09:00:00 | ACME Corp | ana'' @ nl
              @ ''- 2026-02-01 10:00:00 | Acme2 | bob'') None],
      empty_data, END)"
  by code_simp

section \<open>Export by date range\<close>

lemma states_goto_date_end:
  assumes "states e u c s d ev = Some (effs, d1, Goto EXPORT_DATE_END)"
  shows "(s = EXPORT_DATE_START
          \<and> (\<exists>t start. ev = Text t \<and> parse_date t = Some start
                \<and> d1 = d\<lparr>ud_export_start := Some start\<rparr>))
       \<or> (s = EXPORT_DATE_END \<and> d1 = d)"
proof (cases s)
  case PLATFORM_SELECT
  with assms show ?thesis
    by (auto simp: on_callback_def platform_select_def Let_def
        split: event.splits if_splits option.splits)
next
  case CONFIRM_SUBMIT
  with assms show ?thesis
    by (auto simp: on_callback_def confirm_submit_def raised_or_def Let_def
        split: event.splits if_splits option.splits)
next
  case RECALL_MENU
  with assms show ?thesis
    by (auto simp: on_callback_def recall_choice_def show_history_def Let_def
        split: event.splits if_splits option.splits sum.splits prod.splits)
next
  case SEARCH_BRAND
  with assms show ?thesis
    by (auto simp: on_text_def search_brand_def Let_def split: event.splits if_splits sum.splits)
next
  case EXPORT_CHOICE
  with assms show ?thesis
    by (auto simp: on_callback_def export_choice_def Let_def
        split: event.splits if_splits option.splits sum.splits prod.splits)
next
  case EXPORT_DATE_START
  with assms show ?thesis
    by (auto simp: on_text_def export_date_start_def split: event.splits option.splits)
next
  case EXPORT_DATE_END
  with assms show ?thesis
    by (auto simp: on_text_def export_date_end_def Let_def
        split: event.splits if_splits option.splits sum.splits prod.splits)
next
  case EXPORT_REQUESTER
  with assms show ?thesis
    by (auto simp: on_text_def export_requester_def Let_def
        split: event.splits if_splits option.splits sum.splits prod.splits)
qed (use assms in \<open>auto simp: on_text_def on_callback_def brand_name_def creator_name_def
      room_no_def date_to_be_aired_def camera_requirements_def stage_design_def
      other_technical_def platform_mode_def platform_other_def Let_def
      split: event.splits if_splits\<close>)

lemma states_date_end_stay:
  assumes "states e u c EXPORT_DATE_END d ev = Some (effs, d1, out)"
    and "out = ReturnNone \<or> out = Raised x"
  shows "d1 = d"
  using assms
  by (auto simp: on_text_def export_date_end_def Let_def
        split: event.splits if_splits option.splits sum.splits prod.splits)

lemma entry_points_not_date_end:
  "entry_points e u d ev = Some (effs, d1, out) \<Longrightarrow> out \<noteq> Goto EXPORT_DATE_END"
  by (auto simp: entry_points_def action_new_entry_def action_recall_entry_def
      action_export_entry_def export_csv_command_def split: event.splits if_splits)

lemma fallbacks_end: "fallbacks d ev = Some (effs, d1, out) \<Longrightarrow> out = END"
  by (auto simp: fallbacks_def cancel_def split: event.splits if_splits)

lemma outside_data: "outside e u c d ev = Some (effs, d1, out) \<Longrightarrow> d1 = d"
  by (auto simp: outside_def action_dashboard_def action_manager_def dashboard_command_def
      manager_view_command_def split: event.splits if_splits prod.splits)

text \<open>
  A conversation comes to wait for the end date in two ways only: from the start prompt,
  by a text that parses, whose date is stored; or by staying there, with the data as they
  were.
\<close>

lemma conv_to_date_end:
  assumes "conv e u c st d ev = Some (effs, d1, out)"
    and "move st out = Some EXPORT_DATE_END"
  shows "(st = Some EXPORT_DATE_START
          \<and> (\<exists>t start. ev = Text t \<and> parse_date t = Some start
                \<and> d1 = d\<lparr>ud_export_start := Some start\<rparr>))
       \<or> (st = Some EXPORT_DATE_END \<and> d1 = d)"
proof (cases st)
  case None
  with assms(1) have "out \<noteq> Goto EXPORT_DATE_END"
    by (auto simp: conv_def dest: entry_points_not_date_end)
  with assms(2) None show ?thesis
    by (cases out) (simp_all add: move_def)
next
  case (Some s)
  show ?thesis
  proof (cases "states e u c s d ev")
    case None
    with assms(1) Some have "out = END"
      by (auto simp: conv_def dest: fallbacks_end)
    with assms(2) show ?thesis by (simp add: move_def)
  next
    case (Some r)
    with assms(1) \<open>st = Some s\<close> have st: "states e u c s d ev = Some (effs, d1, out)"
      by (simp add: conv_def)
    show ?thesis
    proof (cases out)
      case (Goto t)
      with assms(2) have "out = Goto EXPORT_DATE_END" by (simp add: move_def)
      with st have "states e u c s d ev = Some (effs, d1, Goto EXPORT_DATE_END)" by simp
      from states_goto_date_end [OF this] \<open>st = Some s\<close> show ?thesis by simp
    next
      case END
      with assms(2) show ?thesis by (simp add: move_def)
    next
      case ReturnNone
      with assms(2) \<open>st = Some s\<close> have s: "s = EXPORT_DATE_END" by (simp add: move_def)
      with st ReturnNone have "d1 = d" using states_date_end_stay by blast
      with \<open>st = Some s\<close> s show ?thesis by simp
    next
      case (Raised x)
      with assms(2) \<open>st = Some s\<close> have s: "s = EXPORT_DATE_END" by (simp add: move_def)
      with st Raised have "d1 = d" using states_date_end_stay by blast
      with \<open>st = Some s\<close> s show ?thesis by simp
    qed
  qed
qed

lemma dispatch_to_date_end:
  assumes "dispatch u c (st, d) (e, ev) = (effs, Some EXPORT_DATE_END, d1)"
  shows "(st = Some EXPORT_DATE_START
          \<and> (\<exists>t start. ev = Text t \<and> parse_date t = Some start
                \<and> d1 = d\<lparr>ud_export_start := Some start\<rparr>))
       \<or> (st = Some EXPORT_DATE_END \<and> d1 = d)"
proof (cases "is_menu ev")
  case True
  with assms show ?thesis by (auto simp: dispatch_def menu_def)
next
  case False
  show ?thesis
  proof (cases "conv e u c st d ev")
    case None
    with False assms have "st = Some EXPORT_DATE_END \<and> d1 = d"
      by (auto simp: dispatch_def split: option.splits dest: outside_data)
    then show ?thesis by simp
  next
    case (Some r)
    obtain effs' d' out where r: "r = (effs', d', out)" by (cases r) auto
    with Some False assms have "move st out = Some EXPORT_DATE_END" and "d1 = d'"
      by (auto simp: dispatch_def)
    with conv_to_date_end [of e u c st d ev effs' d' out] Some r
    show ?thesis by simp
  qed
qed

lemma start_is_parsed:
  "parse_date t = Some start \<Longrightarrow>
   dispatch u c (Some EXPORT_DATE_START, d) (e, Text t) =
     ([Reply ''Enter end date (YYYY-MM-DD):'' None], Some EXPORT_DATE_END,
      d\<lparr>ud_export_start := Some start\<rparr>)"
  by (simp add: dispatch_def is_menu_def conv_def on_text_def export_date_start_def move_def)

lemma earlier_end_reprompts:
  "ud_export_start d = Some start \<Longrightarrow> parse_date t = Some end_d \<Longrightarrow> date_less end_d start \<Longrightarrow>
   dispatch u c (Some EXPORT_DATE_END, d) (e, Text t) =
     ([Reply ''End date must be after start date. Enter end date (YYYY-MM-DD):'' None],
      Some EXPORT_DATE_END, d)"
  by (simp add: dispatch_def is_menu_def conv_def on_text_def export_date_end_def move_def)

lemma run_chats_snoc:
  "run_chats u sd (evs @ [(c, ee)]) =
     (case run_chats u sd evs of
        (effs, sts, d) \<Rightarrow>
          (case dispatch u c (sts c, d) ee of
             (effs1, st1, d1) \<Rightarrow> (effs @ effs1, sts(c := st1), d1)))"
proof (induction u sd evs rule: run_chats.induct)
  case (1 u sd)
  then show ?case by (cases sd) (auto split: prod.splits simp: fun_upd_def)
next
  case (2 u sts d c' ee' rest)
  then show ?case by (simp split: prod.splits)
qed

text \<open>
  In a run of the user's chats from idle conversations: when chat \<open>c\<close> waits for the end
  date, the run has a step in chat \<open>c\<close> at which the conversation waited for the start
  date and got a text that parses; the date parsed from that text is what was stored by
  that step, and it is what the data hold now when every later update came in chat \<open>c\<close>.
\<close>

lemma run_chats_start_collected:
  "run_chats u (\<lambda>c. None, d0) evs = (effs, sts, d) \<Longrightarrow> sts c = Some EXPORT_DATE_END \<Longrightarrow>
   \<exists>pre e t post start.
      evs = pre @ (c, e, Text t) # post
    \<and> fst (snd (run_chats u (\<lambda>c. None, d0) pre)) c = Some EXPORT_DATE_START
    \<and> parse_date t = Some start
    \<and> ud_export_start (snd (snd (run_chats u (\<lambda>c. None, d0) (pre @ [(c, e, Text t)]))))
        = Some start
    \<and> (list_all (\<lambda>x. fst x = c) post \<longrightarrow> ud_export_start d = Some start)"
proof (induction evs arbitrary: effs sts d rule: rev_induct)
  case Nil
  then show ?case by auto
next
  case (snoc x evs)
  obtain c' e' ev' where x: "x = (c', e', ev')" by (cases x) auto
  obtain effs0 sts0 d0' where r0: "run_chats u (\<lambda>c. None, d0) evs = (effs0, sts0, d0')"
    by (cases "run_chats u (\<lambda>c. None, d0) evs") auto
  obtain effs1 st1 d1 where step: "dispatch u c' (sts0 c', d0') (e', ev') = (effs1, st1, d1)"
    by (cases "dispatch u c' (sts0 c', d0') (e', ev')") auto
  have all: "run_chats u (\<lambda>c. None, d0) (evs @ [x]) = (effs0 @ effs1, sts0(c' := st1), d1)"
    by (simp add: x run_chats_snoc r0 step)
  with snoc.prems have sts: "sts = sts0(c' := st1)" and d: "d = d1" by simp_all
  show ?case
  proof (cases "c' = c")
    case False
    with sts snoc.prems(2) have "sts0 c = Some EXPORT_DATE_END" by simp
    from snoc.IH [OF r0 this] obtain pre e t post start where
      "evs = pre @ (c, e, Text t) # post"
      "fst (snd (run_chats u (\<lambda>c. None, d0) pre)) c = Some EXPORT_DATE_START"
      "parse_date t = Some start"
      "ud_export_start (snd (snd (run_chats u (\<lambda>c. None, d0) (pre @ [(c, e, Text t)]))))
        = Some start"
      by blast
    moreover from this(1) have "evs @ [x] = pre @ (c, e, Text t) # (post @ [x])" by simp
    moreover have "\<not> list_all (\<lambda>x. fst x = c) (post @ [x])"
      using False x by simp
    ultimately show ?thesis by blast
  next
    case True
    with sts snoc.prems(2) have "st1 = Some EXPORT_DATE_END" by simp
    with step True have
      "dispatch u c (sts0 c, d0') (e', ev') = (effs1, Some EXPORT_DATE_END, d1)" by simp
    from dispatch_to_date_end [OF this] show ?thesis
    proof
      assume a: "sts0 c = Some EXPORT_DATE_START
          \<and> (\<exists>t start. ev' = Text t \<and> parse_date t = Some start
                \<and> d1 = d0'\<lparr>ud_export_start := Some start\<rparr>)"
      then obtain t start where t: "ev' = Text t" "parse_date t = Some start"
        "d1 = d0'\<lparr>ud_export_start := Some start\<rparr>" by blast
      have 1: "evs @ [x] = evs @ (c, e', Text t) # []" using x True t(1) by simp
      have 2: "fst (snd (run_chats u (\<lambda>c. None, d0) evs)) c = Some EXPORT_DATE_START"
        using r0 a by simp
      have 3: "ud_export_start (snd (snd (run_chats u (\<lambda>c. None, d0) (evs @ [(c, e', Text t)]))))
                 = Some start"
        using all x True t by simp
      have 4: "list_all (\<lambda>x. fst x = c) [] \<longrightarrow> ud_export_start d = Some start"
        using d t(3) by simp
      from 1 2 t(2) 3 4 show ?thesis by blast
    next
      assume b: "sts0 c = Some EXPORT_DATE_END \<and> d1 = d0'"
      from snoc.IH [OF r0 b [THEN conjunct1]] obtain pre e t post start where p:
        "evs = pre @ (c, e, Text t) # post"
        "fst (snd (run_chats u (\<lambda>c. None, d0) pre)) c = Some EXPORT_DATE_START"
        "parse_date t = Some start"
        "ud_export_start (snd (snd (run_chats u (\<lambda>c. None, d0) (pre @ [(c, e, Text t)]))))
          = Some start"
        "list_all (\<lambda>x. fst x = c) post \<longrightarrow> ud_export_start d0' = Some start"
        by blast
      have 1: "evs @ [x] = pre @ (c, e, Text t) # (post @ [x])" using p(1) by simp
      have 5: "list_all (\<lambda>x. fst x = c) (post @ [x]) \<longrightarrow> ud_export_start d = Some start"
        using p(5) b d by simp
      from 1 p(2,3,4) 5 show ?thesis by blast
    qed
  qed
qed

text \<open>
  C7 (as the code has it). The start date is collected before the end date is asked for:
  a conversation waits for the end date only after a text at the start prompt has parsed,
  and the date parsed from that text is what the start prompt stored in the user's data.
  An end date that parses and is strictly earlier than the start date the user's data
  hold at that moment gets the end-date prompt again and nothing else: the sheet is not
  read, nothing is exported, and the conversation and the data stay as they are. The
  data belong to the user, not to the conversation: the start date they hold is the one
  collected in this conversation when no update of the user came in from another chat
  since.
\<close>

theorem export_end_before_start_reprompts:
  assumes "run_chats u (\<lambda>c. None, d0) evs = (effs, sts, d)"
    and "sts c = Some EXPORT_DATE_END"
  shows "(\<exists>pre e t post start.
            evs = pre @ (c, e, Text t) # post
          \<and> fst (snd (run_chats u (\<lambda>c. None, d0) pre)) c = Some EXPORT_DATE_START
          \<and> parse_date t = Some start
          \<and> ud_export_start (snd (snd (run_chats u (\<lambda>c. None, d0) (pre @ [(c, e, Text t)]))))
              = Some start
          \<and> (list_all (\<lambda>x. fst x = c) post \<longrightarrow> ud_export_start d = Some start))
       \<and> (\<forall>d' e t start. parse_date t = Some start \<longrightarrow>
             dispatch u c (Some EXPORT_DATE_START, d') (e, Text t) =
               ([Reply ''Enter end date (YYYY-MM-DD):'' None], Some EXPORT_DATE_END,
                d'\<lparr>ud_export_start := Some start\<rparr>))
       \<and> (\<forall>e t end_d start.
             ud_export_start d = Some start \<and> parse_date t = Some end_d \<and> date_less end_d start
             \<longrightarrow>
             dispatch u c (Some EXPORT_DATE_END, d) (e, Text t) =
               ([Reply ''End date must be after start date. Enter end date (YYYY-MM-DD):''
                   None],
                Some EXPORT_DATE_END, d))"
proof (intro conjI allI impI)
  show "\<exists>pre e t post start.
            evs = pre @ (c, e, Text t) # post
          \<and> fst (snd (run_chats u (\<lambda>c. None, d0) pre)) c = Some EXPORT_DATE_START
          \<and> parse_date t = Some start
          \<and> ud_export_start (snd (snd (run_chats u (\<lambda>c. None, d0) (pre @ [(c, e, Text t)]))))
              = Some start
          \<and> (list_all (\<lambda>x. fst x = c) post \<longrightarrow> ud_export_start d = Some start)"
    using assms by (rule run_chats_start_collected)
next
  fix d' e t start
  assume "parse_date t = Some start"
  then show "dispatch u c (Some EXPORT_DATE_START, d') (e, Text t) =
               ([Reply ''Enter end date (YYYY-MM-DD):'' None], Some EXPORT_DATE_END,
                d'\<lparr>ud_export_start := Some start\<rparr>)"
    by (rule start_is_parsed)
next
  fix e t end_d start
  assume "ud_export_start d = Some start \<and> parse_date t = Some end_d \<and> date_less end_d start"
  then show "dispatch u c (Some EXPORT_DATE_END, d) (e, Text t) =
               ([Reply ''End date must be after start date. Enter end date (YYYY-MM-DD):''
                   None],
                Some EXPORT_DATE_END, d)"
    by (simp add: earlier_end_reprompts)
qed

theorem export_end_before_start_reprompts_witness:
  "fst (snd (run_chats ana (\<lambda>c. None, empty_data) chat7_start)) 7 = Some EXPORT_DATE_END
   \<and> ud_export_start (snd (snd (run_chats ana (\<lambda>c. None, empty_data) chat7_start)))
       = parse_date ''2026-03-10''
   \<and> parse_date ''2026-03-10'' = Some \<lparr>year = 2026, month = 3, day = 10\<rparr>
   \<and> parse_date '' 2026-03-01'' = Some \<lparr>year = 2026, month = 3, day = 1\<rparr>
   \<and> dispatch ana 7
        (Some EXPORT_DATE_END, snd (snd (run_chats ana (\<lambda>c. None, empty_data) chat7_start)))
        (env_acme, Text '' 2026-03-01'') =
       ([Reply ''End date must be after start date. Enter end date (YYYY-MM-DD):'' None],
        Some EXPORT_DATE_END,
        snd (snd (run_chats ana (\<lambda>c. None, empty_data) chat7_start)))"
proof -
  let ?r = "run_chats ana (\<lambda>c. None, empty_data) chat7_start"
  have s: "fst (snd ?r) 7 = Some EXPORT_DATE_END"
    by code_simp
  have p0: "parse_date ''2026-03-10'' = Some \<lparr>year = 2026, month = 3, day = 10\<rparr>"
    by code_simp
  have d: "ud_export_start (snd (snd ?r)) = Some \<lparr>year = 2026, month = 3, day = 10\<rparr>"
    by code_simp
  have p: "parse_date '' 2026-03-01'' = Some \<lparr>year = 2026, month = 3, day = 1\<rparr>"
    by code_simp
  have l: "date_less \<lparr>year = 2026, month = 3, day = 1\<rparr> \<lparr>year = 2026, month = 3, day = 10\<rparr>"
    by (simp add: date_less_def)
  have h: "?r = (fst ?r, fst (snd ?r), snd (snd ?r))"
    by simp
  note r = export_end_before_start_reprompts [OF h s]
  from r have "\<forall>e t end_d start.
      ud_export_start (snd (snd ?r)) = Some start \<and> parse_date t = Some end_d
        \<and> date_less end_d start \<longrightarrow>
      dispatch ana 7 (Some EXPORT_DATE_END, snd (snd ?r)) (e, Text t) =
        ([Reply ''End date must be after start date. Enter end date (YYYY-MM-DD):'' None],
         Some EXPORT_DATE_END, snd (snd ?r))"
    by (elim conjE)
  with d p l have c: "dispatch ana 7 (Some EXPORT_DATE_END, snd (snd ?r))
        (env_acme, Text '' 2026-03-01'') =
       ([Reply ''End date must be after start date. Enter end date (YYYY-MM-DD):'' None],
        Some EXPORT_DATE_END, snd (snd ?r))"
    by blast
  have d': "ud_export_start (snd (snd ?r)) = parse_date ''2026-03-10''"
    using d p0 by simp
  show ?thesis
    by (intro conjI) (rule s d' p0 p c)+
qed

text \<open>
  C7 as stated fails when the user has a second chat. In chat 7 the start date 10 March
  is collected; then the start prompt of chat 8 stores 1 January in the same user data.
  The end date 1 March, given in chat 7, is strictly earlier than the start date collected
  there, yet the end-date prompt is not issued again: the sheet is read and the records
  from 1 January to 1 March are exported to chat 7.
\<close>

theorem end_before_collected_start_exported:
  "fst (snd (run_chats ana (\<lambda>c. None, empty_data) chat7_start)) 7 = Some EXPORT_DATE_END
   \<and> ud_export_start (snd (snd (run_chats ana (\<lambda>c. None, empty_data) chat7_start)))
       = Some \<lparr>year = 2026, month = 3, day = 10\<rparr>
   \<and> fst (snd (run_chats ana (\<lambda>c. None, empty_data) (chat7_start @ chat8_start))) 7
       = Some EXPORT_DATE_END
   \<and> parse_date ''2026-03-01'' = Some \<lparr>year = 2026, month = 3, day = 1\<rparr>
   \<and> date_less \<lparr>year = 2026, month = 3, day = 1\<rparr> \<lparr>year = 2026, month = 3, day = 10\<rparr>
   \<and> fst (run_chats ana (\<lambda>c. None, empty_data)
            (chat7_start @ chat8_start @ [(7, env_acme, Text ''2026-03-01'')]))
       = fst (run_chats ana (\<lambda>c. None, empty_data) (chat7_start @ chat8_start))
         @ [SheetRead,
            SendDocument (ChatId 7) headers acme_records
              ''request-submissions-20261104-120000.csv'']
   \<and> documents (fst (run_chats ana (\<lambda>c. None, empty_data)
            (chat7_start @ chat8_start @ [(7, env_acme, Text ''2026-03-01'')])))
       = [(ChatId 7, acme_records)]"
  by code_simp

section \<open>The windows of the manager view\<close>

lemma days_le_iff: "(a::int) div 86400000000 \<le> n \<longleftrightarrow> a < (n + 1) * 86400000000"
proof -
  define q r where "q = a div 86400000000" and "r = a mod 86400000000"
  have "a = 86400000000 * q + r" and "0 \<le> r" and "r < 86400000000"
    by (simp_all add: q_def r_def)
  then have "q \<le> n \<longleftrightarrow> a < (n + 1) * 86400000000"
    by (simp add: algebra_simps) linarith
  then show ?thesis by (simp add: q_def)
qed

lemma manager_loop_counts:
  "\<exists>bc'. manager_loop now_t rs (a, b, bc) =
     (a + length (filter (within_days 7 now_t) rs),
      b + length (filter (within_days 30 now_t) rs), bc')"
proof (induction rs arbitrary: a b bc)
  case Nil
  then show ?case by simp
next
  case (Cons r rs)
  show ?case
  proof (cases "strptime_datetime (strip (rget r ''Timestamp''))")
    case None
    then have "\<not> within_days 7 now_t r" "\<not> within_days 30 now_t r"
      by (simp_all add: within_days_def age_def)
    with None Cons.IH show ?thesis by (simp add: Let_def)
  next
    case (Some t)
    have w7: "within_days 7 now_t r \<longleftrightarrow> delta_days now_t t \<le> 7"
      using Some days_le_iff [of "microseconds now_t - microseconds t" 7]
      by (simp add: within_days_def age_def delta_days_def)
    have w30: "within_days 30 now_t r \<longleftrightarrow> delta_days now_t t \<le> 30"
      using Some days_le_iff [of "microseconds now_t - microseconds t" 30]
      by (simp add: within_days_def age_def delta_days_def)
    obtain bc' where "manager_loop now_t rs
          (if delta_days now_t t \<le> 7 then a + 1 else a,
           if delta_days now_t t \<le> 30 then b + 1 else b,
           bump (if strip (rget r ''Brand Name'') \<noteq> [] then strip (rget r ''Brand Name'')
                 else ''Unknown'') bc) =
          ((if delta_days now_t t \<le> 7 then a + 1 else a) + length (filter (within_days 7 now_t) rs),
           (if delta_days now_t t \<le> 30 then b + 1 else b) + length (filter (within_days 30 now_t) rs),
           bc')"
      using Cons.IH by blast
    then show ?thesis
      using Some w7 w30 by (simp add: Let_def)
  qed
qed

lemma within_7_30: "within_days 7 now_t r \<Longrightarrow> within_days 30 now_t r"
  by (auto simp: within_days_def split: option.splits)

text \<open>
  C8 (as the code has it). Over the records whose timestamp can be read, the manager view
  counts in the 7-day window those whose timestamp is less than 8 days before now (the
  whole days of now minus the timestamp are at most 7; a timestamp later than now counts
  too), and in the 30-day window those less than 31 days before now. The windows are
  cumulative: every record counted in the 7-day window is counted in the 30-day window.
  A record stamped 8 days or more before now is not counted in the 7-day window.
\<close>

theorem manager_windows:
  assumes "manager_loop now_t records (0, 0, []) = (last_7, last_30, brand_counts)"
  shows "last_7 = length (filter (within_days 7 now_t) records)
       \<and> last_30 = length (filter (within_days 30 now_t) records)
       \<and> set (filter (within_days 7 now_t) records) \<subseteq> set (filter (within_days 30 now_t) records)
       \<and> last_7 \<le> last_30"
proof -
  obtain bc' where "manager_loop now_t records (0, 0, []) =
     (0 + length (filter (within_days 7 now_t) records),
      0 + length (filter (within_days 30 now_t) records), bc')"
    using manager_loop_counts by blast
  with assms have a: "last_7 = length (filter (within_days 7 now_t) records)"
    and b: "last_30 = length (filter (within_days 30 now_t) records)" by simp_all
  have c: "set (filter (within_days 7 now_t) records) \<subseteq> set (filter (within_days 30 now_t) records)"
    using within_7_30 by auto
  have "filter (within_days 7 now_t) records
        = filter (within_days 7 now_t) (filter (within_days 30 now_t) records)"
    using within_7_30 by (induction records) auto
  then have "length (filter (within_days 7 now_t) records)
             \<le> length (filter (within_days 30 now_t) records)"
    by (metis length_filter_le)
  with a b c show ?thesis by simp
qed

theorem manager_windows_witness:
  "manager_loop noon [old_record, [(''Timestamp'', ''n/a'')], old_record] (0, 0, [])
     = (2, 2, [(''Acme'', 2), (''Unknown'', 1)])
   \<and> length (filter (within_days 7 noon) [old_record, [(''Timestamp'', ''n/a'')], old_record]) = 2"
proof -
  have h: "manager_loop noon [old_record, [(''Timestamp'', ''n/a'')], old_record] (0, 0, [])
     = (2, 2, [(''Acme'', 2), (''Unknown'', 1)])"
    by code_simp
  from manager_windows [OF h] have
    "length (filter (within_days 7 noon) [old_record, [(''Timestamp'', ''n/a'')], old_record]) = 2"
    by simp
  with h show ?thesis by simp
qed

text \<open>
  C8 as stated fails at the edge of the window: a record stamped seven days and
  twenty-three hours before now, which is more than 7 days, is counted in the 7-day
  window.
\<close>

theorem older_than_7_days_counted:
  "age noon old_record = Some (7 * 86400000000 + 23 * 3600000000)
   \<and> manager_loop noon [old_record] (0, 0, []) = (1, 1, [(''Acme'', 1)])"
  by code_simp

section \<open>The export command\<close>

text \<open>
  C9. The admin test takes the name of the sender, trimmed; the sender is an admin when
  that name is not empty and, with its leading \<open>@\<close> signs removed, is one of the listed
  names as it is written. When a sender who does not pass the test gives the export
  command, the bot replies with the fixed denial text and ends; the sheet is not read.
\<close>

theorem export_denied_without_read:
  assumes "strip (dget (username u) []) = []
           \<or> lstrip_at (strip (dget (username u) [])) \<notin> set (ADMIN_USERNAMES e)"
  shows "export_csv_command e u d = ([Reply ''Sorry, only admins can export CSV.'' None], d, END)
       \<and> dispatch u c (None, d) (e, Command ''export'') =
           ([Reply ''Sorry, only admins can export CSV.'' None], None, d)
       \<and> SheetRead \<notin> set (fst (export_csv_command e u d))"
proof -
  have na: "\<not> is_admin (ADMIN_USERNAMES e) u"
    using assms by (auto simp: is_admin_def Let_def)
  have lo: "lower ''export'' = ''export''"
    by (simp add: lower_def lower_char_def)
  have a: "export_csv_command e u d = ([Reply ''Sorry, only admins can export CSV.'' None], d, END)"
    using na by (simp add: export_csv_command_def)
  have "\<not> is_menu (Command ''export'')"
    by (simp add: is_menu_def lower_def lower_char_def)
  then have b: "dispatch u c (None, d) (e, Command ''export'') =
           ([Reply ''Sorry, only admins can export CSV.'' None], None, d)"
    by (simp add: dispatch_def conv_def entry_points_def lo a move_def)
  show ?thesis using a b by simp
qed

theorem export_denied_without_read_witness:
  "lstrip_at (strip (dget (username \<lparr>username = Some ''@Ana'', user_id = 9\<rparr>) [])) = ''Ana''
   \<and> ''Ana'' \<notin> set (ADMIN_USERNAMES env0)
   \<and> dispatch \<lparr>username = Some ''@Ana'', user_id = 9\<rparr> 9 (None, empty_data)
        (env0, Command ''export'') =
       ([Reply ''Sorry, only admins can export CSV.'' None], None, empty_data)"
proof -
  let ?u = "\<lparr>username = Some ''@Ana'', user_id = 9\<rparr>"
  have h1: "lstrip_at (strip (dget (username ?u) [])) = ''Ana''"
    by (simp add: dget_def strip_def lstrip_def rstrip_def isspace_def lstrip_at_def)
  have h2: "''Ana'' \<notin> set (ADMIN_USERNAMES env0)"
    by (simp add: env0_def)
  have h: "strip (dget (username ?u) []) = []
           \<or> lstrip_at (strip (dget (username ?u) [])) \<notin> set (ADMIN_USERNAMES env0)"
    using h1 h2 by simp
  note r = export_denied_without_read [OF h, of empty_data 9]
  show ?thesis
    by (intro conjI) (rule h1 h2 r [THEN conjunct2, THEN conjunct1])+
qed

end
